theory Spec2Isabelle
  imports Complex_Main "HOL-Library.Signed_Division" "HOL-Library.Word"
begin

section \<open>A shallow embedding of the go-tensor-flow training engine\<close>

text \<open>
  The Go package \<open>nn\<close> is translated function by function. Conventions of the embedding:
  \<^item> \<open>float64\<close> values are modelled by the type \<open>real\<close>: every theorem below is a statement
    about the arithmetic the code asks for, carried out exactly. Rounding, overflow to
    infinity and NaN are outside the model. Where the code divides by zero, takes the square
    root of a negative number or raises zero to a negative power, it produces an infinity or
    NaN and the model says nothing about it: every theorem below carries the hypotheses that
    exclude these cases for the values it speaks of.
  \<^item> A run-time panic (index out of range, nil dereference, integer division by zero,
    \<open>make\<close> with a negative length) is a value \<open>Inl (Panic k)\<close>; an \<open>error\<close> returned by the
    code is \<open>Inl\<close> of another constructor of \<open>error\<close>. The text of an error message is not
    modelled, only which message it is and the layer index it carries.
  \<^item> Pointers to matrices are modelled by value. The code only writes through a pointer to
    matrices that their owner allocated itself (gradients, optimizer moments, parameters),
    and the embedding returns the new owner state explicitly.
  \<^item> Go's \<open>int\<close> has 64 bits (the 64-bit platforms) and its arithmetic wraps around. The
    dimensions of a \<open>Matrix\<close> are natural numbers (\<open>NewMatrix\<close> panics on a negative
    dimension) and a loop counter, which stays below its bound, is a natural number. The step
    counter of Adam is a 64-bit word, read as a signed number by \<open>sint\<close>. The dimensions and
    hyperparameters of the convolution code are integers, because the code subtracts and
    divides them; every sum, difference, product and quotient of \<open>int\<close> values that the code
    computes is passed through \<open>wrap64\<close>, which reduces it into the range of \<open>int\<close>.
  \<^item> Random initialisation (\<open>NewDense\<close>, \<open>NewConvLayer\<close>, \<open>RandomMatrix\<close>) is not modelled: a layer
    is any value of its record type, and the predicates \<open>wf_Dense\<close>, \<open>wf_ConvLayer\<close> say what the
    constructors establish. \<open>Fit\<close>, \<open>Evaluate\<close> and \<open>MaxPool2D\<close> are not translated.
\<close>

subsection \<open>Errors, panics and loops\<close>

datatype panic = IndexOutOfRange | NilDereference | IntegerDivideByZero | MakeSliceLenOutOfRange

datatype error =
    IncompatibleDimensions
  | InputSizeMismatch
  | GradientSizeMismatch
  | ShapeMismatch
  | InputChannelsMismatch
  | ErrorInLayer nat error
  | ErrorInBackwardPass nat error
  | Panic panic

fun is_panic :: "error \<Rightarrow> bool" where
  "is_panic (Panic k) = True"
| "is_panic e = False"

definition bindE :: "error + 'a \<Rightarrow> ('a \<Rightarrow> error + 'b) \<Rightarrow> error + 'b" where
  "bindE r f = (case r of Inl e \<Rightarrow> Inl e | Inr x \<Rightarrow> f x)"

text \<open>\<open>xs[i]\<close> read and written, with Go's bounds check.\<close>

definition index :: "'a list \<Rightarrow> nat \<Rightarrow> error + 'a" where
  "index xs i = (if i < length xs then Inr (xs ! i) else Inl (Panic IndexOutOfRange))"

definition assign :: "'a list \<Rightarrow> nat \<Rightarrow> 'a \<Rightarrow> error + 'a list" where
  "assign xs i v = (if i < length xs then Inr (xs[i := v]) else Inl (Panic IndexOutOfRange))"

definition index2 :: "'a list list \<Rightarrow> nat \<Rightarrow> nat \<Rightarrow> error + 'a" where
  "index2 d i j = bindE (index d i) (\<lambda>row. index row j)"

definition assign2 :: "'a list list \<Rightarrow> nat \<Rightarrow> nat \<Rightarrow> 'a \<Rightarrow> error + 'a list list" where
  "assign2 d i j v = bindE (index d i) (\<lambda>row. bindE (assign row j v) (\<lambda>row'. assign d i row'))"

text \<open>
  \<open>for _, i := range is { s = body i s }\<close>, stopping at the first failure. The counting loop
  \<open>for i := 0; i < n; i++\<close> is \<open>forM [0..<n]\<close>.
\<close>

primrec forM :: "nat list \<Rightarrow> (nat \<Rightarrow> 's \<Rightarrow> error + 's) \<Rightarrow> 's \<Rightarrow> error + 's" where
  "forM [] body s = Inr s"
| "forM (i # is) body s = bindE (body i s) (forM is body)"

text \<open>
  The value that Go's 64-bit \<open>int\<close> arithmetic gives for an operation whose exact result
  is \<open>x\<close>: the representative of \<open>x\<close> modulo \<open>2^64\<close> between \<open>-2^63\<close> and \<open>2^63 - 1\<close>.
\<close>

definition wrap64 :: "int \<Rightarrow> int" where
  "wrap64 x = (x + 2 ^ 63) mod 2 ^ 64 - 2 ^ 63"

definition is_int64 :: "int \<Rightarrow> bool" where
  "is_int64 x \<longleftrightarrow> - (2 ^ 63) \<le> x \<and> x < 2 ^ 63"

subsection \<open>Matrix (second part of src/unnamed/part_001)\<close>

record Matrix =
  Rows :: nat
  Cols :: nat
  Data :: "real list list"

definition NewMatrix :: "nat \<Rightarrow> nat \<Rightarrow> Matrix" where
  "NewMatrix rows cols = \<lparr>Rows = rows, Cols = cols, Data = replicate rows (replicate cols 0)\<rparr>"

text \<open>\<open>m.Data[i][j]\<close> as an expression and as the target of an assignment.\<close>

definition mat_get :: "Matrix \<Rightarrow> nat \<Rightarrow> nat \<Rightarrow> error + real" where
  "mat_get m i j = index2 (Data m) i j"

definition mat_set :: "Matrix \<Rightarrow> nat \<Rightarrow> nat \<Rightarrow> real \<Rightarrow> error + Matrix" where
  "mat_set m i j v = bindE (assign2 (Data m) i j v) (\<lambda>d. Inr (m\<lparr>Data := d\<rparr>))"

definition Multiply :: "Matrix \<Rightarrow> Matrix \<Rightarrow> error + Matrix" where
  "Multiply m other =
    (if Cols m \<noteq> Rows other then Inl IncompatibleDimensions
     else forM [0..<Rows m] (\<lambda>i. forM [0..<Cols other] (\<lambda>j result.
            bindE (forM [0..<Cols m] (\<lambda>k sum.
                     bindE (mat_get m i k) (\<lambda>a.
                     bindE (mat_get other k j) (\<lambda>b. Inr (sum + a * b)))) 0)
                  (\<lambda>sum. mat_set result i j sum)))
          (NewMatrix (Rows m) (Cols other)))"

definition Add :: "Matrix \<Rightarrow> Matrix \<Rightarrow> error + Matrix" where
  "Add m other =
    (if Rows m \<noteq> Rows other \<or> Cols m \<noteq> Cols other then Inl IncompatibleDimensions
     else forM [0..<Rows m] (\<lambda>i. forM [0..<Cols m] (\<lambda>j result.
            bindE (mat_get m i j) (\<lambda>a.
            bindE (mat_get other i j) (\<lambda>b. mat_set result i j (a + b)))))
          (NewMatrix (Rows m) (Cols m)))"

definition Scale :: "Matrix \<Rightarrow> real \<Rightarrow> error + Matrix" where
  "Scale m scalar =
     forM [0..<Rows m] (\<lambda>i. forM [0..<Cols m] (\<lambda>j result.
        bindE (mat_get m i j) (\<lambda>a. mat_set result i j (a * scalar))))
      (NewMatrix (Rows m) (Cols m))"

text \<open>
  The shape a matrix claims and the shape its data has. \<open>NewMatrix\<close> and every operation
  of the package produce well-formed matrices; the fields are exported, so a caller can
  break the agreement.
\<close>

definition wf_Matrix :: "Matrix \<Rightarrow> bool" where
  "wf_Matrix m \<longleftrightarrow> length (Data m) = Rows m \<and> list_all (\<lambda>row. length row = Cols m) (Data m)"

definition has_shape :: "Matrix \<Rightarrow> nat \<Rightarrow> nat \<Rightarrow> bool" where
  "has_shape m r c \<longleftrightarrow> Rows m = r \<and> Cols m = c \<and> wf_Matrix m"

subsection \<open>Activation functions (src/activations.go)\<close>

definition Softmax :: "real list \<Rightarrow> error + real list" where
  "Softmax input =
     bindE (index input 0) (\<lambda>max0.
       let max = foldl (\<lambda>max v. if v > max then v else max) max0 input;
           expValues = map (\<lambda>v. exp (v - max)) input;
           sum = foldl (+) 0 expValues
       in Inr (map (\<lambda>e. e / sum) expValues))"

definition SoftmaxMatrix :: "Matrix \<Rightarrow> error + Matrix" where
  "SoftmaxMatrix m =
     forM [0..<Rows m] (\<lambda>i result.
        bindE (index (Data m) i) (\<lambda>row.
        bindE (Softmax row) (\<lambda>out.
        bindE (assign (Data result) i out) (\<lambda>d. Inr (result\<lparr>Data := d\<rparr>)))))
      (NewMatrix (Rows m) (Cols m))"

definition ReLU :: "real \<Rightarrow> real" where
  "ReLU x = (if x > 0 then x else 0)"

definition ReLUMatrix :: "Matrix \<Rightarrow> error + Matrix" where
  "ReLUMatrix m =
     forM [0..<Rows m] (\<lambda>i. forM [0..<Cols m] (\<lambda>j result.
        bindE (mat_get m i j) (\<lambda>x. mat_set result i j (ReLU x))))
      (NewMatrix (Rows m) (Cols m))"

subsection \<open>Layers (src/layers.go)\<close>

record Dense =
  InputSize :: nat
  OutputSize :: nat
  Weights :: Matrix
  Bias :: Matrix
  lastInput :: "Matrix option"
  weightsGrad :: Matrix
  biasGrad :: Matrix

text \<open>
  What \<open>NewDense\<close> establishes (the weights themselves are random): the shapes of the
  parameters and of the gradient buffers.
\<close>

definition wf_Dense :: "Dense \<Rightarrow> bool" where
  "wf_Dense d \<longleftrightarrow>
     has_shape (Weights d) (InputSize d) (OutputSize d) \<and>
     has_shape (Bias d) 1 (OutputSize d) \<and>
     has_shape (weightsGrad d) (InputSize d) (OutputSize d) \<and>
     has_shape (biasGrad d) 1 (OutputSize d)"

text \<open>
  A method with a pointer receiver returns its result together with the receiver's new
  state: \<open>Forward\<close> stores the input before it multiplies, so the cache changes even when
  the call then fails.
\<close>

definition Dense_Forward :: "Dense \<Rightarrow> Matrix \<Rightarrow> (error + Matrix) \<times> Dense" where
  "Dense_Forward d input =
    (if Cols input \<noteq> InputSize d then (Inl InputSizeMismatch, d)
     else
       (bindE (Multiply input (Weights d)) (\<lambda>output.
          forM [0..<Rows output] (\<lambda>i. forM [0..<Cols output] (\<lambda>j output.
             bindE (mat_get output i j) (\<lambda>x.
             bindE (mat_get (Bias d) 0 j) (\<lambda>b. mat_set output i j (x + b)))))
           output),
        d\<lparr>lastInput := Some input\<rparr>))"

definition Dense_Backward :: "Dense \<Rightarrow> Matrix \<Rightarrow> (error + Matrix) \<times> Dense" where
  "Dense_Backward d gradOutput =
    (if Cols gradOutput \<noteq> OutputSize d then (Inl GradientSizeMismatch, d)
     else
       let batchSize = real (Rows gradOutput) in
       case forM [0..<InputSize d] (\<lambda>i. forM [0..<OutputSize d] (\<lambda>j wg.
              bindE (case lastInput d of
                       None \<Rightarrow> Inl (Panic NilDereference)
                     | Some x \<Rightarrow> forM [0..<Rows x] (\<lambda>b sum.
                         bindE (mat_get x b i) (\<lambda>a.
                         bindE (mat_get gradOutput b j) (\<lambda>g. Inr (sum + a * g)))) 0)
                    (\<lambda>sum. mat_set wg i j (sum / batchSize))))
             (weightsGrad d) of
         Inl e \<Rightarrow> (Inl e, d)
       | Inr wg \<Rightarrow>
          (case forM [0..<OutputSize d] (\<lambda>j bg.
                  bindE (forM [0..<Rows gradOutput] (\<lambda>i sum.
                           bindE (mat_get gradOutput i j) (\<lambda>g. Inr (sum + g))) 0)
                        (\<lambda>sum. mat_set bg 0 j (sum / batchSize)))
                 (biasGrad d) of
             Inl e \<Rightarrow> (Inl e, d\<lparr>weightsGrad := wg\<rparr>)
           | Inr bg \<Rightarrow>
              (forM [0..<Rows gradOutput] (\<lambda>i. forM [0..<InputSize d] (\<lambda>j gradInput.
                  bindE (forM [0..<OutputSize d] (\<lambda>k sum.
                           bindE (mat_get gradOutput i k) (\<lambda>g.
                           bindE (mat_get (Weights d) j k) (\<lambda>w. Inr (sum + g * w)))) 0)
                        (\<lambda>sum. mat_set gradInput i j sum)))
                 (NewMatrix (Rows gradOutput) (InputSize d)),
               d\<lparr>weightsGrad := wg, biasGrad := bg\<rparr>)))"

record ReLULayer =
  relu_lastInput :: "Matrix option"

definition ReLULayer_Forward :: "ReLULayer \<Rightarrow> Matrix \<Rightarrow> (error + Matrix) \<times> ReLULayer" where
  "ReLULayer_Forward r input = (ReLUMatrix input, r\<lparr>relu_lastInput := Some input\<rparr>)"

definition ReLULayer_Backward :: "ReLULayer \<Rightarrow> Matrix \<Rightarrow> (error + Matrix) \<times> ReLULayer" where
  "ReLULayer_Backward r gradOutput =
    (forM [0..<Rows gradOutput] (\<lambda>i. forM [0..<Cols gradOutput] (\<lambda>j gradInput.
        bindE (case relu_lastInput r of
                 None \<Rightarrow> Inl (Panic NilDereference)
               | Some x \<Rightarrow> mat_get x i j)
              (\<lambda>x. if x > 0
                    then bindE (mat_get gradOutput i j) (\<lambda>g. mat_set gradInput i j g)
                    else Inr gradInput)))
       (NewMatrix (Rows gradOutput) (Cols gradOutput)),
     r)"

record SoftmaxLayer =
  lastOutput :: "Matrix option"

definition SoftmaxLayer_Forward :: "SoftmaxLayer \<Rightarrow> Matrix \<Rightarrow> (error + Matrix) \<times> SoftmaxLayer" where
  "SoftmaxLayer_Forward s input =
    (case SoftmaxMatrix input of
       Inl e \<Rightarrow> (Inl e, s)
     | Inr out \<Rightarrow> (Inr out, s\<lparr>lastOutput := Some out\<rparr>))"

definition SoftmaxLayer_Backward :: "SoftmaxLayer \<Rightarrow> Matrix \<Rightarrow> (error + Matrix) \<times> SoftmaxLayer" where
  "SoftmaxLayer_Backward s gradOutput = (Inr gradOutput, s)"

text \<open>The \<open>Layer\<close> interface, over the three implementations the package has.\<close>

datatype Layer = DenseLayer Dense | ReLU_Layer ReLULayer | Softmax_Layer SoftmaxLayer

fun Layer_Forward :: "Layer \<Rightarrow> Matrix \<Rightarrow> (error + Matrix) \<times> Layer" where
  "Layer_Forward (DenseLayer d) input = (case Dense_Forward d input of (r, d') \<Rightarrow> (r, DenseLayer d'))"
| "Layer_Forward (ReLU_Layer l) input = (case ReLULayer_Forward l input of (r, l') \<Rightarrow> (r, ReLU_Layer l'))"
| "Layer_Forward (Softmax_Layer l) input = (case SoftmaxLayer_Forward l input of (r, l') \<Rightarrow> (r, Softmax_Layer l'))"

fun Layer_Backward :: "Layer \<Rightarrow> Matrix \<Rightarrow> (error + Matrix) \<times> Layer" where
  "Layer_Backward (DenseLayer d) g = (case Dense_Backward d g of (r, d') \<Rightarrow> (r, DenseLayer d'))"
| "Layer_Backward (ReLU_Layer l) g = (case ReLULayer_Backward l g of (r, l') \<Rightarrow> (r, ReLU_Layer l'))"
| "Layer_Backward (Softmax_Layer l) g = (case SoftmaxLayer_Backward l g of (r, l') \<Rightarrow> (r, Softmax_Layer l'))"

fun GetParams :: "Layer \<Rightarrow> Matrix list" where
  "GetParams (DenseLayer d) = [Weights d, Bias d]"
| "GetParams (ReLU_Layer l) = []"
| "GetParams (Softmax_Layer l) = []"

fun GetGrads :: "Layer \<Rightarrow> Matrix list" where
  "GetGrads (DenseLayer d) = [weightsGrad d, biasGrad d]"
| "GetGrads (ReLU_Layer l) = []"
| "GetGrads (Softmax_Layer l) = []"

fun GetParamNames :: "Layer \<Rightarrow> string list" where
  "GetParamNames (DenseLayer d) = [''weights'', ''bias'']"
| "GetParamNames (ReLU_Layer l) = []"
| "GetParamNames (Softmax_Layer l) = []"

subsection \<open>Losses (first part of src/unnamed/part_001)\<close>

record BinaryCrossEntropy =
  bce_Epsilon :: real

definition BinaryCrossEntropy_Forward :: "BinaryCrossEntropy \<Rightarrow> Matrix \<Rightarrow> Matrix \<Rightarrow> error + real" where
  "BinaryCrossEntropy_Forward bce predictions targets =
    (if Rows predictions \<noteq> Rows targets \<or> Cols predictions \<noteq> Cols targets then Inl ShapeMismatch
     else
       let n = real_of_int (wrap64 (int (Rows predictions) * int (Cols predictions))) in
       bindE (forM [0..<Rows predictions] (\<lambda>i. forM [0..<Cols predictions] (\<lambda>j totalLoss.
                bindE (mat_get predictions i j) (\<lambda>x.
                let pred = max (bce_Epsilon bce) (min (1 - bce_Epsilon bce) x) in
                bindE (mat_get targets i j) (\<lambda>target.
                Inr (totalLoss + - (target * ln pred + (1 - target) * ln (1 - pred))))))) 0)
             (\<lambda>totalLoss. Inr (totalLoss / n)))"

definition BinaryCrossEntropy_Backward :: "BinaryCrossEntropy \<Rightarrow> Matrix \<Rightarrow> Matrix \<Rightarrow> error + Matrix" where
  "BinaryCrossEntropy_Backward bce predictions targets =
    (if Rows predictions \<noteq> Rows targets \<or> Cols predictions \<noteq> Cols targets then Inl ShapeMismatch
     else
       let n = real_of_int (wrap64 (int (Rows predictions) * int (Cols predictions))) in
       forM [0..<Rows predictions] (\<lambda>i. forM [0..<Cols predictions] (\<lambda>j gradient.
          bindE (mat_get predictions i j) (\<lambda>x.
          let pred = max (bce_Epsilon bce) (min (1 - bce_Epsilon bce) x) in
          bindE (mat_get targets i j) (\<lambda>target.
          mat_set gradient i j (- (target / pred - (1 - target) / (1 - pred)) / n)))))
        (NewMatrix (Rows predictions) (Cols predictions)))"

record CategoricalCrossEntropy =
  cce_Epsilon :: real

definition CategoricalCrossEntropy_Forward :: "CategoricalCrossEntropy \<Rightarrow> Matrix \<Rightarrow> Matrix \<Rightarrow> error + real" where
  "CategoricalCrossEntropy_Forward cce predictions targets =
    (if Rows predictions \<noteq> Rows targets \<or> Cols predictions \<noteq> Cols targets then Inl ShapeMismatch
     else
       let n = real (Rows predictions) in
       bindE (forM [0..<Rows predictions] (\<lambda>i. forM [0..<Cols predictions] (\<lambda>j totalLoss.
                bindE (mat_get predictions i j) (\<lambda>x.
                let pred = max (cce_Epsilon cce) x in
                bindE (mat_get targets i j) (\<lambda>target.
                Inr (totalLoss + - target * ln pred))))) 0)
             (\<lambda>totalLoss. Inr (totalLoss / n)))"

definition CategoricalCrossEntropy_Backward :: "CategoricalCrossEntropy \<Rightarrow> Matrix \<Rightarrow> Matrix \<Rightarrow> error + Matrix" where
  "CategoricalCrossEntropy_Backward cce predictions targets =
    (if Rows predictions \<noteq> Rows targets \<or> Cols predictions \<noteq> Cols targets then Inl ShapeMismatch
     else
       let n = real (Rows predictions) in
       forM [0..<Rows predictions] (\<lambda>i. forM [0..<Cols predictions] (\<lambda>j gradient.
          bindE (mat_get predictions i j) (\<lambda>x.
          let pred = max (cce_Epsilon cce) x in
          bindE (mat_get targets i j) (\<lambda>target.
          mat_set gradient i j (- target / pred / n)))))
        (NewMatrix (Rows predictions) (Cols predictions)))"

text \<open>\<open>MSE\<close> is an empty struct: its methods depend on their arguments only.\<close>

definition MSE_Forward :: "Matrix \<Rightarrow> Matrix \<Rightarrow> error + real" where
  "MSE_Forward predictions targets =
    (if Rows predictions \<noteq> Rows targets \<or> Cols predictions \<noteq> Cols targets then Inl ShapeMismatch
     else
       let n = real_of_int (wrap64 (int (Rows predictions) * int (Cols predictions))) in
       bindE (forM [0..<Rows predictions] (\<lambda>i. forM [0..<Cols predictions] (\<lambda>j totalLoss.
                bindE (mat_get targets i j) (\<lambda>t.
                bindE (mat_get predictions i j) (\<lambda>p.
                let diff = t - p in Inr (totalLoss + diff * diff))))) 0)
             (\<lambda>totalLoss. Inr (totalLoss / (2 * n))))"

definition MSE_Backward :: "Matrix \<Rightarrow> Matrix \<Rightarrow> error + Matrix" where
  "MSE_Backward predictions targets =
    (if Rows predictions \<noteq> Rows targets \<or> Cols predictions \<noteq> Cols targets then Inl ShapeMismatch
     else
       let n = real_of_int (wrap64 (int (Rows predictions) * int (Cols predictions))) in
       forM [0..<Rows predictions] (\<lambda>i. forM [0..<Cols predictions] (\<lambda>j gradient.
          bindE (mat_get targets i j) (\<lambda>t.
          bindE (mat_get predictions i j) (\<lambda>p.
          mat_set gradient i j (- (t - p) / n)))))
        (NewMatrix (Rows predictions) (Cols predictions)))"

text \<open>The \<open>Loss\<close> interface; a model that was never compiled holds the nil interface.\<close>

datatype Loss =
    BinaryCrossEntropyLoss BinaryCrossEntropy
  | CategoricalCrossEntropyLoss CategoricalCrossEntropy
  | MSE

fun Loss_Forward :: "Loss option \<Rightarrow> Matrix \<Rightarrow> Matrix \<Rightarrow> error + real" where
  "Loss_Forward None p t = Inl (Panic NilDereference)"
| "Loss_Forward (Some (BinaryCrossEntropyLoss l)) p t = BinaryCrossEntropy_Forward l p t"
| "Loss_Forward (Some (CategoricalCrossEntropyLoss l)) p t = CategoricalCrossEntropy_Forward l p t"
| "Loss_Forward (Some MSE) p t = MSE_Forward p t"

fun Loss_Backward :: "Loss option \<Rightarrow> Matrix \<Rightarrow> Matrix \<Rightarrow> error + Matrix" where
  "Loss_Backward None p t = Inl (Panic NilDereference)"
| "Loss_Backward (Some (BinaryCrossEntropyLoss l)) p t = BinaryCrossEntropy_Backward l p t"
| "Loss_Backward (Some (CategoricalCrossEntropyLoss l)) p t = CategoricalCrossEntropy_Backward l p t"
| "Loss_Backward (Some MSE) p t = MSE_Backward p t"

subsection \<open>Optimizers (second part of src/model.go)\<close>

record AdamOptimizer =
  LearningRate :: real
  Beta1 :: real
  Beta2 :: real
  Epsilon :: real
  T :: int
  M :: "string \<rightharpoonup> Matrix"
  V :: "string \<rightharpoonup> Matrix"


text \<open>
  \<open>Update\<close> has no error result: it returns the new parameter values or panics. The moment
  matrices \<open>m\<close> and \<open>v\<close> are the ones stored in the maps, updated in place, so the model
  stores them back. \<open>v\<close> is nil when the identifier is in \<open>M\<close> and not in \<open>V\<close>; the code then
  dereferences nil in its first loop iteration that touches \<open>v\<close>, if there is one.
\<close>

definition AdamOptimizer_Update ::
    "AdamOptimizer \<Rightarrow> string \<Rightarrow> Matrix \<Rightarrow> Matrix \<Rightarrow> error + Matrix \<times> AdamOptimizer" where
  "AdamOptimizer_Update adam0 paramName params gradients =
    (let adam1 = adam0\<lparr>T := T adam0 + 1\<rparr>;
         adam = (if M adam1 paramName = None
                 then adam1\<lparr>M := (M adam1)(paramName \<mapsto> NewMatrix (Rows params) (Cols params)),
                            V := (V adam1)(paramName \<mapsto> NewMatrix (Rows params) (Cols params))\<rparr>
                 else adam1)
     in case M adam paramName of
          None \<Rightarrow> Inl (Panic NilDereference)
        | Some m0 \<Rightarrow>
     bindE (forM [0..<Rows params] (\<lambda>i. forM [0..<Cols params] (\<lambda>j m.
              bindE (mat_get m i j) (\<lambda>mij.
              bindE (mat_get gradients i j) (\<lambda>g.
              mat_set m i j (Beta1 adam * mij + (1 - Beta1 adam) * g))))) m0) (\<lambda>m.
     case V adam paramName of
       None \<Rightarrow> if Rows params = 0 \<or> Cols params = 0
               then Inr (NewMatrix (Rows params) (Cols params), adam\<lparr>M := (M adam)(paramName \<mapsto> m)\<rparr>)
               else Inl (Panic NilDereference)
     | Some v0 \<Rightarrow>
     bindE (forM [0..<Rows params] (\<lambda>i. forM [0..<Cols params] (\<lambda>j v.
              bindE (mat_get v i j) (\<lambda>vij.
              bindE (mat_get gradients i j) (\<lambda>g.
              bindE (mat_get gradients i j) (\<lambda>g'.
              mat_set v i j (Beta2 adam * vij + (1 - Beta2 adam) * g * g')))))) v0) (\<lambda>v.
     bindE (forM [0..<Rows params] (\<lambda>i. forM [0..<Cols params] (\<lambda>j mHat.
              bindE (mat_get m i j) (\<lambda>mij.
              mat_set mHat i j (mij / (1 - power_int (Beta1 adam) (T adam))))))
            (NewMatrix (Rows params) (Cols params))) (\<lambda>mHat.
     bindE (forM [0..<Rows params] (\<lambda>i. forM [0..<Cols params] (\<lambda>j vHat.
              bindE (mat_get v i j) (\<lambda>vij.
              mat_set vHat i j (vij / (1 - power_int (Beta2 adam) (T adam))))))
            (NewMatrix (Rows params) (Cols params))) (\<lambda>vHat.
     bindE (forM [0..<Rows params] (\<lambda>i. forM [0..<Cols params] (\<lambda>j updated.
              bindE (mat_get params i j) (\<lambda>p.
              bindE (mat_get mHat i j) (\<lambda>mh.
              bindE (mat_get vHat i j) (\<lambda>vh.
              mat_set updated i j (p - LearningRate adam * mh / (sqrt vh + Epsilon adam)))))))
            (NewMatrix (Rows params) (Cols params))) (\<lambda>updated.
     Inr (updated, adam\<lparr>M := (M adam)(paramName \<mapsto> m), V := (V adam)(paramName \<mapsto> v)\<rparr>)))))))"

record SGD =
  sgd_LearningRate :: real
  Momentum :: real
  Velocity :: "string \<rightharpoonup> Matrix"

definition NewSGD :: "real \<Rightarrow> real \<Rightarrow> SGD" where
  "NewSGD learningRate momentum =
     \<lparr>sgd_LearningRate = learningRate, Momentum = momentum, Velocity = Map.empty\<rparr>"

definition SGD_Update :: "SGD \<Rightarrow> string \<Rightarrow> Matrix \<Rightarrow> Matrix \<Rightarrow> error + Matrix \<times> SGD" where
  "SGD_Update sgd0 paramName params gradients =
    (let sgd = (if Velocity sgd0 paramName = None
                then sgd0\<lparr>Velocity := (Velocity sgd0)(paramName \<mapsto> NewMatrix (Rows params) (Cols params))\<rparr>
                else sgd0)
     in case Velocity sgd paramName of
          None \<Rightarrow> Inl (Panic NilDereference)
        | Some velocity0 \<Rightarrow>
     bindE (forM [0..<Rows params] (\<lambda>i. forM [0..<Cols params] (\<lambda>j (velocity, updated).
              bindE (mat_get velocity i j) (\<lambda>vel.
              bindE (mat_get gradients i j) (\<lambda>g.
              bindE (mat_set velocity i j (Momentum sgd * vel - sgd_LearningRate sgd * g)) (\<lambda>velocity'.
              bindE (mat_get params i j) (\<lambda>p.
              bindE (mat_get velocity' i j) (\<lambda>vel'.
              bindE (mat_set updated i j (p + vel')) (\<lambda>updated'.
              Inr (velocity', updated')))))))))
            (velocity0, NewMatrix (Rows params) (Cols params)))
       (\<lambda>(velocity, updated).
          Inr (updated, sgd\<lparr>Velocity := (Velocity sgd)(paramName \<mapsto> velocity)\<rparr>)))"

text \<open>The two implementations of the \<open>Optimizer\<close> interface.\<close>

datatype Optimizer = Adam AdamOptimizer | SGD_Optimizer SGD

fun Optimizer_Update :: "Optimizer \<Rightarrow> string \<Rightarrow> Matrix \<Rightarrow> Matrix \<Rightarrow> error + Matrix \<times> Optimizer" where
  "Optimizer_Update (Adam a) n p g = bindE (AdamOptimizer_Update a n p g) (\<lambda>(u, a'). Inr (u, Adam a'))"
| "Optimizer_Update (SGD_Optimizer s) n p g = bindE (SGD_Update s n p g) (\<lambda>(u, s'). Inr (u, SGD_Optimizer s'))"

subsection \<open>Sequential (first part of src/model.go)\<close>

text \<open>
  The model is polymorphic in the state \<open>'o\<close> of its optimizer, and the functions that use
  the optimizer take its \<open>Update\<close> method as the argument \<open>upd\<close>: \<open>Optimizer\<close> is an interface,
  and the model calls nothing else of it.
\<close>

record 'o Sequential =
  Layers :: "Layer list"
  Loss :: "Loss option"
  Optimizer :: "'o option"

definition NewSequential :: "'o Sequential" where
  "NewSequential = \<lparr>Layers = [], Loss = None, Optimizer = None\<rparr>"

definition Add_layer :: "'o Sequential \<Rightarrow> Layer \<Rightarrow> 'o Sequential" where
  "Add_layer s layer = s\<lparr>Layers := Layers s @ [layer]\<rparr>"

definition Compile :: "'o Sequential \<Rightarrow> Loss \<Rightarrow> 'o \<Rightarrow> 'o Sequential" where
  "Compile s loss optimizer = s\<lparr>Loss := Some loss, Optimizer := Some optimizer\<rparr>"

text \<open>\<open>fmt.Errorf\<close> wraps an error that was returned; a panic passes through unwrapped.\<close>

definition wrap_error :: "(error \<Rightarrow> error) \<Rightarrow> error \<Rightarrow> error" where
  "wrap_error w e = (if is_panic e then e else w e)"

fun forward_layers :: "nat \<Rightarrow> Layer list \<Rightarrow> Matrix \<Rightarrow> (error + Matrix) \<times> Layer list" where
  "forward_layers i [] output = (Inr output, [])"
| "forward_layers i (layer # layers) output =
     (case Layer_Forward layer output of
        (Inl e, layer') \<Rightarrow> (Inl (wrap_error (ErrorInLayer i) e), layer' # layers)
      | (Inr output', layer') \<Rightarrow>
          (case forward_layers (Suc i) layers output' of
             (r, layers') \<Rightarrow> (r, layer' # layers')))"

definition Sequential_Forward :: "'o Sequential \<Rightarrow> Matrix \<Rightarrow> (error + Matrix) \<times> 'o Sequential" where
  "Sequential_Forward s input =
     (case forward_layers 0 (Layers s) input of (r, layers') \<Rightarrow> (r, s\<lparr>Layers := layers'\<rparr>))"

text \<open>
  The backward loop counts \<open>i\<close> down from \<open>len(s.Layers) - 1\<close>: \<open>backward_layers\<close> takes the
  layers in reverse order, so the index of the head is the length of the tail.
\<close>

fun backward_layers :: "Layer list \<Rightarrow> Matrix \<Rightarrow> (error + Matrix) \<times> Layer list" where
  "backward_layers [] grad = (Inr grad, [])"
| "backward_layers (layer # layers) grad =
     (case Layer_Backward layer grad of
        (Inl e, layer') \<Rightarrow> (Inl (wrap_error (ErrorInBackwardPass (length layers)) e), layer' # layers)
      | (Inr grad', layer') \<Rightarrow>
          (case backward_layers layers grad' of
             (r, layers') \<Rightarrow> (r, layer' # layers')))"

definition Sequential_Backward :: "'o Sequential \<Rightarrow> Matrix \<Rightarrow> error option \<times> 'o Sequential" where
  "Sequential_Backward s gradOutput =
     (case backward_layers (rev (Layers s)) gradOutput of
        (r, layers') \<Rightarrow>
          ((case r of Inl e \<Rightarrow> Some e | Inr grad \<Rightarrow> None), s\<lparr>Layers := rev layers'\<rparr>))"

text \<open>\<open>%d\<close> of a layer index.\<close>

fun show_nat :: "nat \<Rightarrow> string" where
  "show_nat n =
     (if n < 10 then [''0123456789'' ! n]
      else show_nat (n div 10) @ [''0123456789'' ! (n mod 10)])"

declare show_nat.simps [simp del]

text \<open>
  \<open>GetParams\<close> returns pointers to the layer's own matrices, and \<open>UpdateWeights\<close> writes the
  new values through them: \<open>SetParams\<close> puts the written matrices back into the layer.
\<close>

fun SetParams :: "Layer \<Rightarrow> Matrix list \<Rightarrow> Layer" where
  "SetParams (DenseLayer d) [w, b] = DenseLayer (d\<lparr>Weights := w, Bias := b\<rparr>)"
| "SetParams layer ps = layer"

definition update_layer ::
    "('o \<Rightarrow> string \<Rightarrow> Matrix \<Rightarrow> Matrix \<Rightarrow> error + Matrix \<times> 'o) \<Rightarrow> nat \<Rightarrow> Layer \<Rightarrow> 'o option
      \<Rightarrow> error + Layer \<times> 'o option" where
  "update_layer upd layerIdx layer optimizer0 =
     (let grads = GetGrads layer; paramNames = GetParamNames layer in
      bindE (forM [0..<length (GetParams layer)] (\<lambda>i (params, optimizer).
               bindE (index paramNames i) (\<lambda>name.
               let paramName = ''layer_'' @ show_nat layerIdx @ ''_'' @ name in
               bindE (index params i) (\<lambda>p.
               bindE (index grads i) (\<lambda>g.
               bindE (case optimizer of
                        None \<Rightarrow> Inl (Panic NilDereference)
                      | Some opt \<Rightarrow> upd opt paramName p g) (\<lambda>(updated, opt').
               bindE (forM [0..<Rows p] (\<lambda>r. forM [0..<Cols p] (\<lambda>c p.
                        bindE (mat_get updated r c) (\<lambda>x. mat_set p r c x))) p) (\<lambda>p'.
               bindE (assign params i p') (\<lambda>params'.
               Inr (params', Some opt'))))))))
             (GetParams layer, optimizer0))
        (\<lambda>(params, optimizer). Inr (SetParams layer params, optimizer)))"

fun update_layers ::
    "('o \<Rightarrow> string \<Rightarrow> Matrix \<Rightarrow> Matrix \<Rightarrow> error + Matrix \<times> 'o) \<Rightarrow> nat \<Rightarrow> Layer list \<Rightarrow> 'o option
      \<Rightarrow> error + Layer list \<times> 'o option" where
  "update_layers upd layerIdx [] optimizer = Inr ([], optimizer)"
| "update_layers upd layerIdx (layer # layers) optimizer =
     bindE (update_layer upd layerIdx layer optimizer) (\<lambda>(layer', optimizer').
     bindE (update_layers upd (Suc layerIdx) layers optimizer') (\<lambda>(layers', optimizer'').
     Inr (layer' # layers', optimizer'')))"

definition UpdateWeights ::
    "('o \<Rightarrow> string \<Rightarrow> Matrix \<Rightarrow> Matrix \<Rightarrow> error + Matrix \<times> 'o) \<Rightarrow> 'o Sequential \<Rightarrow> error + 'o Sequential" where
  "UpdateWeights upd s =
     bindE (update_layers upd 0 (Layers s) (Optimizer s)) (\<lambda>(layers', optimizer').
     Inr (s\<lparr>Layers := layers', Optimizer := optimizer'\<rparr>))"

definition TrainOnBatch ::
    "('o \<Rightarrow> string \<Rightarrow> Matrix \<Rightarrow> Matrix \<Rightarrow> error + Matrix \<times> 'o) \<Rightarrow> 'o Sequential \<Rightarrow> Matrix \<Rightarrow> Matrix
      \<Rightarrow> (error + real) \<times> 'o Sequential" where
  "TrainOnBatch upd s X y =
     (case Sequential_Forward s X of
        (Inl e, s1) \<Rightarrow> (Inl e, s1)
      | (Inr predictions, s1) \<Rightarrow>
     (case Loss_Forward (Loss s1) predictions y of
        Inl e \<Rightarrow> (Inl e, s1)
      | Inr loss \<Rightarrow>
     (case Loss_Backward (Loss s1) predictions y of
        Inl e \<Rightarrow> (Inl e, s1)
      | Inr gradLoss \<Rightarrow>
     (case Sequential_Backward s1 gradLoss of
        (Some e, s2) \<Rightarrow> (Inl e, s2)
      | (None, s2) \<Rightarrow>
     (case UpdateWeights upd s2 of
        Inl e \<Rightarrow> (Inl e, s2)
      | Inr s3 \<Rightarrow> (Inr loss, s3))))))"

definition Predict :: "'o Sequential \<Rightarrow> Matrix \<Rightarrow> (error + Matrix) \<times> 'o Sequential" where
  "Predict s X = Sequential_Forward s X"

subsection \<open>Convolution (src/unnamed/part_000)\<close>

record Tensor3D =
  Channels :: int
  Height :: int
  Width :: int
  tensor_Data :: "real list list list"

text \<open>\<open>make\<close> panics on a negative length; the inner \<open>make\<close> calls run once per outer element.\<close>

definition NewTensor3D :: "int \<Rightarrow> int \<Rightarrow> int \<Rightarrow> error + Tensor3D" where
  "NewTensor3D channels height width =
    (if channels < 0 \<or> (channels > 0 \<and> height < 0) \<or> (channels > 0 \<and> height > 0 \<and> width < 0)
     then Inl (Panic MakeSliceLenOutOfRange)
     else Inr \<lparr>Channels = channels, Height = height, Width = width,
               tensor_Data = replicate (nat channels) (replicate (nat height) (replicate (nat width) 0))\<rparr>)"

record ConvLayer =
  NumFilters :: int
  FilterSize :: int
  Stride :: int
  Padding :: int
  InChannels :: int
  Filters :: "real list list list list"
  conv_Bias :: "real list"

text \<open>
  Go's integer division truncates toward zero and panics on a zero divisor; the quotient of
  the least \<open>int\<close> by \<open>-1\<close> wraps around.
\<close>

definition go_div :: "int \<Rightarrow> int \<Rightarrow> error + int" where
  "go_div a b = (if b = 0 then Inl (Panic IntegerDivideByZero) else Inr (wrap64 (a sdiv b)))"

definition index3 :: "'a list list list \<Rightarrow> nat \<Rightarrow> nat \<Rightarrow> nat \<Rightarrow> error + 'a" where
  "index3 d c i j = bindE (index d c) (\<lambda>plane. index2 plane i j)"

definition index4 :: "'a list list list list \<Rightarrow> nat \<Rightarrow> nat \<Rightarrow> nat \<Rightarrow> nat \<Rightarrow> error + 'a" where
  "index4 d f c i j = bindE (index d f) (\<lambda>filter. index3 filter c i j)"

definition assign3 :: "'a list list list \<Rightarrow> nat \<Rightarrow> nat \<Rightarrow> nat \<Rightarrow> 'a \<Rightarrow> error + 'a list list list" where
  "assign3 d c i j v = bindE (index d c) (\<lambda>plane. bindE (assign2 plane i j v) (\<lambda>plane'. assign d c plane'))"

definition ConvLayer_Forward :: "ConvLayer \<Rightarrow> Tensor3D \<Rightarrow> error + Tensor3D" where
  "ConvLayer_Forward conv input =
    (if Channels input \<noteq> InChannels conv then Inl InputChannelsMismatch
     else
       bindE (go_div (wrap64 (wrap64 (Height input - FilterSize conv) + wrap64 (2 * Padding conv)))
                     (Stride conv)) (\<lambda>qh.
       bindE (go_div (wrap64 (wrap64 (Width input - FilterSize conv) + wrap64 (2 * Padding conv)))
                     (Stride conv)) (\<lambda>qw.
       let outHeight = wrap64 (qh + 1); outWidth = wrap64 (qw + 1) in
       bindE (NewTensor3D (NumFilters conv) outHeight outWidth) (\<lambda>output0.
       forM [0..<nat (NumFilters conv)] (\<lambda>f.
       forM [0..<nat outHeight] (\<lambda>outH.
       forM [0..<nat outWidth] (\<lambda>outW output.
         bindE (index (conv_Bias conv) f) (\<lambda>bias.
         bindE (forM [0..<nat (InChannels conv)] (\<lambda>c.
                forM [0..<nat (FilterSize conv)] (\<lambda>fh.
                forM [0..<nat (FilterSize conv)] (\<lambda>fw sum.
                  let inH = wrap64 (wrap64 (wrap64 (int outH * Stride conv) + int fh) - Padding conv);
                      inW = wrap64 (wrap64 (wrap64 (int outW * Stride conv) + int fw) - Padding conv)
                  in if inH \<ge> 0 \<and> inH < Height input \<and> inW \<ge> 0 \<and> inW < Width input
                     then bindE (index3 (tensor_Data input) c (nat inH) (nat inW)) (\<lambda>x.
                          bindE (index4 (Filters conv) f c fh fw) (\<lambda>w.
                          Inr (sum + x * w)))
                     else Inr sum))) bias) (\<lambda>sum.
         bindE (assign3 (tensor_Data output) f outH outW sum) (\<lambda>d.
         Inr (output\<lparr>tensor_Data := d\<rparr>))))))) output0))))"

subsection \<open>Well-formed states\<close>






subsection \<open>Notions used to state the results\<close>


text \<open>
  \<open>only_panics r\<close>: the computation \<open>r\<close> returns a value or panics. This is what the signature
  of \<open>Optimizer.Update\<close> says of every implementation: the method has no \<open>error\<close> result.
\<close>

definition only_panics :: "error + 'a \<Rightarrow> bool" where
  "only_panics r \<longleftrightarrow> (case r of Inl e \<Rightarrow> is_panic e | Inr x \<Rightarrow> True)"

text \<open>
  \<open>recording upd\<close> is an optimizer that behaves as \<open>upd\<close> and keeps a log: its state is the state
  of \<open>upd\<close> and the list of the calls made so far, each with its identifier and the state of
  \<open>upd\<close> on entry. It is an implementation of the \<open>Optimizer\<close> interface like any other, so
  \<open>UpdateWeights\<close> runs with it unchanged, and the log shows which states the calls of one
  training step saw.
\<close>

definition recording ::
   "('o \<Rightarrow> string \<Rightarrow> Matrix \<Rightarrow> Matrix \<Rightarrow> error + Matrix \<times> 'o)
     \<Rightarrow> 'o \<times> (string \<times> 'o) list \<Rightarrow> string \<Rightarrow> Matrix \<Rightarrow> Matrix
     \<Rightarrow> error + Matrix \<times> ('o \<times> (string \<times> 'o) list)" where
  "recording upd = (\<lambda>(opt, calls) paramName params gradients.
     bindE (upd opt paramName params gradients) (\<lambda>(updated, opt').
     Inr (updated, (opt', calls @ [(paramName, opt)]))))"

subsection \<open>Auxiliary notions for the proofs\<close>

text \<open>
  \<open>framed x0 x\<close>: the matrix \<open>x\<close> has the declared dimensions and the row lengths of \<open>x0\<close>,
  which is what a loop that assigns single entries of \<open>x0\<close> preserves.
\<close>

definition framed :: "Matrix \<Rightarrow> Matrix \<Rightarrow> bool" where
  "framed x0 x \<longleftrightarrow> Rows x = Rows x0 \<and> Cols x = Cols x0 \<and> map length (Data x) = map length (Data x0)"





subsection \<open>Concrete inputs\<close>

text \<open>
  A dense layer with two inputs and one output, as \<open>NewDense 2 1\<close> builds it, with the
  weights \<open>[[3], [4]]\<close>; a batch of two samples and a gradient for it; a batch of one sample.
\<close>

definition dense_2_1 :: Dense where
  "dense_2_1 = \<lparr>InputSize = 2, OutputSize = 1,
     Weights = \<lparr>Rows = 2, Cols = 1, Data = [[3], [4]]\<rparr>,
     Bias = NewMatrix 1 1,
     lastInput = None, weightsGrad = NewMatrix 2 1, biasGrad = NewMatrix 1 1\<rparr>"

definition batch_2_2 :: Matrix where
  "batch_2_2 = \<lparr>Rows = 2, Cols = 2, Data = [[1, 2], [3, 4]]\<rparr>"

definition grad_2_1 :: Matrix where
  "grad_2_1 = \<lparr>Rows = 2, Cols = 1, Data = [[1], [2]]\<rparr>"

definition batch_1_2 :: Matrix where
  "batch_1_2 = \<lparr>Rows = 1, Cols = 2, Data = [[1, 2]]\<rparr>"

text \<open>An input with a positive, a zero and a negative entry, and a gradient of its shape.\<close>

definition relu_input :: Matrix where
  "relu_input = \<lparr>Rows = 2, Cols = 2, Data = [[1, 0], [- 1, 2]]\<rparr>"

definition relu_grad :: Matrix where
  "relu_grad = \<lparr>Rows = 2, Cols = 2, Data = [[5, 6], [7, 8]]\<rparr>"

text \<open>
  An SGD optimizer with learning rate \<open>0.1\<close> and momentum \<open>0.9\<close> that has already updated the
  identifier \<open>layer_0_weights\<close> and holds the velocity \<open>[[1]]\<close> for it.
\<close>

definition sgd_used :: SGD where
  "sgd_used = \<lparr>sgd_LearningRate = 1 / 10, Momentum = 9 / 10,
     Velocity = [''layer_0_weights'' \<mapsto> \<lparr>Rows = 1, Cols = 1, Data = [[1]]\<rparr>]\<rparr>"

text \<open>A model with the one dense layer, compiled with the MSE loss and a new SGD optimizer.\<close>

definition model_mse :: "Optimizer Sequential" where
  "model_mse = Compile (Add_layer NewSequential (DenseLayer dense_2_1)) MSE (SGD_Optimizer (NewSGD (1 / 10) 0))"







section \<open>Loops and matrices: basic facts\<close>

lemma wrap64_id: "is_int64 x \<Longrightarrow> wrap64 x = x"
  by (simp add: wrap64_def is_int64_def)

lemma wrap64_nat: "n < 2 ^ 63 \<Longrightarrow> wrap64 (int n) = int n"
  by (rule wrap64_id) (simp add: is_int64_def flip: of_nat_less_numeral_power_cancel_iff)


lemma bindE_Inr [simp]: "bindE (Inr x) f = f x"
  by (simp add: bindE_def)

lemma bindE_Inl [simp]: "bindE (Inl e) f = Inl e"
  by (simp add: bindE_def)

lemma forM_append: "forM (xs @ ys) body s = bindE (forM xs body s) (forM ys body)"
  by (induction xs arbitrary: s) (auto simp: bindE_def split: sum.splits)

lemma forM_single: "forM [i] body = body i"
  by (rule ext) (simp add: bindE_def split: sum.splits)

lemma forM_upt_Suc: "forM [0..<Suc n] body s = bindE (forM [0..<n] body s) (body n)"
  by (simp add: forM_append forM_single)

lemma forM_upt_rule:
  assumes init: "I 0 s"
    and step: "\<And>i t. i < n \<Longrightarrow> I i t \<Longrightarrow> \<exists>t'. body i t = Inr t' \<and> I (Suc i) t'"
  shows "\<exists>t. forM [0..<n] body s = Inr t \<and> I n t"
  using step
proof (induction n)
  case 0
  then show ?case using init by simp
next
  case (Suc n)
  then obtain t where t: "forM [0..<n] body s = Inr t" "I n t"
    by (meson less_Suc_eq)
  from Suc.prems [of n t] t obtain t' where "body n t = Inr t'" "I (Suc n) t'"
    by auto
  with t show ?case
    by (simp add: forM_upt_Suc del: upt_Suc)
qed

lemma forM_sum:
  assumes "\<And>k s. k < n \<Longrightarrow> body k s = Inr (s + h k)"
  shows "forM [0..<n] body (s0::real) = Inr (s0 + (\<Sum>k<n. h k))"
  using assms
proof (induction n)
  case 0
  then show ?case by simp
next
  case (Suc n)
  then show ?case by (simp add: forM_upt_Suc del: upt_Suc)
qed

lemma index_Inr [simp]: "i < length xs \<Longrightarrow> index xs i = Inr (xs ! i)"
  by (simp add: index_def)

lemma assign_Inr [simp]: "i < length xs \<Longrightarrow> assign xs i v = Inr (xs[i := v])"
  by (simp add: assign_def)

lemma mat_get_Inr:
  "i < length (Data m) \<Longrightarrow> j < length (Data m ! i) \<Longrightarrow> mat_get m i j = Inr (Data m ! i ! j)"
  by (simp add: mat_get_def index2_def)

lemma mat_set_Inr:
  "i < length (Data m) \<Longrightarrow> j < length (Data m ! i) \<Longrightarrow>
   mat_set m i j v = Inr (m\<lparr>Data := (Data m)[i := (Data m ! i)[j := v]]\<rparr>)"
  by (simp add: mat_set_def assign2_def)

lemma framed_refl [simp]: "framed x x"
  by (simp add: framed_def)

lemma framed_trans: "framed x0 x \<Longrightarrow> framed x x' \<Longrightarrow> framed x0 x'"
  by (simp add: framed_def)

lemma framed_length: "framed x0 x \<Longrightarrow> length (Data x) = length (Data x0)"
  unfolding framed_def by (metis length_map)

lemma framed_row_length:
  "framed x0 x \<Longrightarrow> r < length (Data x0) \<Longrightarrow> length (Data x ! r) = length (Data x0 ! r)"
  unfolding framed_def by (metis length_map nth_map)

lemma framed_dims: "framed x0 x \<Longrightarrow> Rows x = Rows x0 \<and> Cols x = Cols x0"
  by (simp add: framed_def)

lemma map_length_update: "map length (d[i := (d ! i)[j := v]]) = map length d"
  by (cases "i < length d") (simp_all add: map_update list_update_same_conv list_update_beyond)

lemma framed_update: "framed x0 x \<Longrightarrow> framed x0 (x\<lparr>Data := (Data x)[i := (Data x ! i)[j := v]]\<rparr>)"
  by (simp add: framed_def map_length_update)

lemma fill_row:
  assumes i: "i < length (Data x0)" and k: "k \<le> length (Data x0 ! i)"
    and body: "\<And>j x. j < k \<Longrightarrow> framed x0 x \<Longrightarrow> Data x ! i ! j = Data x0 ! i ! j \<Longrightarrow>
                 body j x = Inr (x\<lparr>Data := (Data x)[i := (Data x ! i)[j := f j]]\<rparr>)"
  shows "\<exists>x. forM [0..<k] body x0 = Inr x \<and> framed x0 x \<and>
           (\<forall>r<length (Data x0). \<forall>c<length (Data x0 ! r).
               Data x ! r ! c = (if r = i \<and> c < k then f c else Data x0 ! r ! c))"
proof -
  let ?I = "\<lambda>n x. framed x0 x \<and>
           (\<forall>r<length (Data x0). \<forall>c<length (Data x0 ! r).
               Data x ! r ! c = (if r = i \<and> c < n then f c else Data x0 ! r ! c))"
  have "\<exists>x. forM [0..<k] body x0 = Inr x \<and> ?I k x"
  proof (rule forM_upt_rule)
    show "?I 0 x0" by simp
  next
    fix j x assume j: "j < k" and I: "?I j x"
    then have fr: "framed x0 x" by simp
    from I i j k have "Data x ! i ! j = Data x0 ! i ! j" by simp
    with body [OF j fr] have b: "body j x = Inr (x\<lparr>Data := (Data x)[i := (Data x ! i)[j := f j]]\<rparr>)"
      by simp
    have "?I (Suc j) (x\<lparr>Data := (Data x)[i := (Data x ! i)[j := f j]]\<rparr>)"
      using I i j k by (auto simp: framed_update framed_length framed_row_length nth_list_update less_Suc_eq)
    with b show "\<exists>t'. body j x = Inr t' \<and> ?I (Suc j) t'" by blast
  qed
  then show ?thesis by simp
qed

lemma fill_loop:
  assumes n: "n \<le> length (Data x0)" and k: "\<forall>i<n. k \<le> length (Data x0 ! i)"
    and body: "\<And>i j x. i < n \<Longrightarrow> j < k \<Longrightarrow> framed x0 x \<Longrightarrow> Data x ! i ! j = Data x0 ! i ! j \<Longrightarrow>
                 body i j x = Inr (x\<lparr>Data := (Data x)[i := (Data x ! i)[j := f i j]]\<rparr>)"
  shows "\<exists>x. forM [0..<n] (\<lambda>i. forM [0..<k] (body i)) x0 = Inr x \<and> framed x0 x \<and>
           (\<forall>r<length (Data x0). \<forall>c<length (Data x0 ! r).
               Data x ! r ! c = (if r < n \<and> c < k then f r c else Data x0 ! r ! c))"
proof -
  let ?I = "\<lambda>m x. framed x0 x \<and>
           (\<forall>r<length (Data x0). \<forall>c<length (Data x0 ! r).
               Data x ! r ! c = (if r < m \<and> c < k then f r c else Data x0 ! r ! c))"
  have "\<exists>x. forM [0..<n] (\<lambda>i. forM [0..<k] (body i)) x0 = Inr x \<and> ?I n x"
  proof (rule forM_upt_rule)
    show "?I 0 x0" by simp
  next
    fix i x assume i: "i < n" and I: "?I i x"
    then have fr: "framed x0 x" by simp
    have il: "i < length (Data x)" using fr i n by (simp add: framed_length)
    have kl: "k \<le> length (Data x ! i)" using fr i n k by (simp add: framed_row_length)
    have "\<exists>x'. forM [0..<k] (body i) x = Inr x' \<and> framed x x' \<and>
           (\<forall>r<length (Data x). \<forall>c<length (Data x ! r).
               Data x' ! r ! c = (if r = i \<and> c < k then f i c else Data x ! r ! c))"
    proof (rule fill_row [OF il kl])
      fix j x' assume j: "j < k" and fr': "framed x x'" and e: "Data x' ! i ! j = Data x ! i ! j"
      have 1: "framed x0 x'" using fr fr' by (rule framed_trans)
      have "i < length (Data x0)" "j < length (Data x0 ! i)" using i j n k by auto
      with I have "Data x ! i ! j = Data x0 ! i ! j" by auto
      with e have 2: "Data x' ! i ! j = Data x0 ! i ! j" by simp
      show "body i j x' = Inr (x'\<lparr>Data := (Data x')[i := (Data x' ! i)[j := f i j]]\<rparr>)"
        by (rule body [OF i j 1 2])
    qed
    then obtain x' where x': "forM [0..<k] (body i) x = Inr x'" "framed x x'"
       "\<forall>r<length (Data x). \<forall>c<length (Data x ! r).
               Data x' ! r ! c = (if r = i \<and> c < k then f i c else Data x ! r ! c)" by blast
    have "?I (Suc i) x'"
      using x'(2,3) I framed_trans [OF fr x'(2)]
      by (auto simp: framed_length framed_row_length less_Suc_eq)
    with x'(1) show "\<exists>t'. forM [0..<k] (body i) x = Inr t' \<and> ?I (Suc i) t'" by blast
  qed
  then show ?thesis by simp
qed



lemma NewMatrix_simps [simp]:
  "Rows (NewMatrix r c) = r" "Cols (NewMatrix r c) = c"
  "Data (NewMatrix r c) = replicate r (replicate c 0)"
  by (simp_all add: NewMatrix_def)

lemma has_shape_NewMatrix: "has_shape (NewMatrix r c) r c"
  by (simp add: has_shape_def wf_Matrix_def list_all_length)

lemma has_shapeD:
  assumes "has_shape m r c"
  shows "Rows m = r" "Cols m = c" "length (Data m) = r" "\<And>i. i < r \<Longrightarrow> length (Data m ! i) = c"
  using assms by (auto simp: has_shape_def wf_Matrix_def list_all_length)

lemma framed_has_shape: "framed x0 x \<Longrightarrow> has_shape x0 r c \<Longrightarrow> has_shape x r c"
  by (auto simp: framed_length framed_row_length framed_dims has_shape_def wf_Matrix_def list_all_length)

lemma mat_get_shape: "has_shape m r c \<Longrightarrow> i < r \<Longrightarrow> j < c \<Longrightarrow> mat_get m i j = Inr (Data m ! i ! j)"
  by (simp add: mat_get_Inr has_shapeD)

lemma mat_set_framed:
  assumes "framed x0 x" "i < length (Data x0)" "j < length (Data x0 ! i)"
  shows "mat_set x i j v = Inr (x\<lparr>Data := (Data x)[i := (Data x ! i)[j := v]]\<rparr>)"
  using assms by (simp add: mat_set_Inr framed_length framed_row_length)

section \<open>Matrix multiplication\<close>




section \<open>The empty model\<close>

text \<open>
  Claim C10. On a model with no layers, \<open>Forward\<close>, and \<open>Predict\<close> which calls it, succeed on
  every input and return that input; the model is left as it was.
\<close>

theorem Sequential_Forward_no_layers:
  assumes "Layers s = []"
  shows "Sequential_Forward s X = (Inr X, s) \<and> Predict s X = (Inr X, s)"
  using assms by (simp add: Sequential_Forward_def Predict_def)

theorem Sequential_Forward_no_layers_witness:
  "Layers (NewSequential :: Optimizer Sequential) = [] \<and>
   Sequential_Forward (NewSequential :: Optimizer Sequential) (NewMatrix 2 3) = (Inr (NewMatrix 2 3), NewSequential) \<and>
   Predict (NewSequential :: Optimizer Sequential) (NewMatrix 2 3) = (Inr (NewMatrix 2 3), NewSequential)"
proof -
  have h: "Layers (NewSequential :: Optimizer Sequential) = []"
    by (simp add: NewSequential_def)
  from Sequential_Forward_no_layers [OF h, of "NewMatrix 2 3"] h show ?thesis by simp
qed

lemma fill_loop_shape:
  assumes sh: "has_shape x0 n k"
    and body: "\<And>i j x. i < n \<Longrightarrow> j < k \<Longrightarrow> framed x0 x \<Longrightarrow> Data x ! i ! j = Data x0 ! i ! j \<Longrightarrow>
                 body i j x = Inr (x\<lparr>Data := (Data x)[i := (Data x ! i)[j := f i j]]\<rparr>)"
  shows "\<exists>x. forM [0..<n] (\<lambda>i. forM [0..<k] (body i)) x0 = Inr x \<and> has_shape x n k \<and>
           (\<forall>i<n. \<forall>j<k. Data x ! i ! j = f i j)"
proof -
  have "\<exists>x. forM [0..<n] (\<lambda>i. forM [0..<k] (body i)) x0 = Inr x \<and> framed x0 x \<and>
           (\<forall>r<length (Data x0). \<forall>c<length (Data x0 ! r).
               Data x ! r ! c = (if r < n \<and> c < k then f r c else Data x0 ! r ! c))"
    by (rule fill_loop) (use sh body in \<open>simp_all add: has_shapeD\<close>)
  then obtain x where x: "forM [0..<n] (\<lambda>i. forM [0..<k] (body i)) x0 = Inr x" "framed x0 x"
    "\<forall>r<length (Data x0). \<forall>c<length (Data x0 ! r).
               Data x ! r ! c = (if r < n \<and> c < k then f r c else Data x0 ! r ! c)" by blast
  have "\<forall>i<n. \<forall>j<k. Data x ! i ! j = f i j"
    using x(3) sh by (simp add: has_shapeD)
  with x(1) framed_has_shape [OF x(2) sh] show ?thesis by blast
qed

lemma update_same: "Data x ! i ! j = v \<Longrightarrow> x\<lparr>Data := (Data x)[i := (Data x ! i)[j := v]]\<rparr> = x"
  by auto

section \<open>The ReLU layer\<close>

text \<open>
  Claim C5. When the cached forward input \<open>x\<close> of a ReLU layer and the gradient \<open>g\<close> have
  the same shape, \<open>Backward\<close> returns a matrix of that shape whose entry \<open>(i, j)\<close> is
  \<open>g[i][j]\<close> where \<open>x[i][j] > 0\<close> and \<open>0\<close> where \<open>x[i][j] \<le> 0\<close>; an input of zero does not
  pass the gradient.
\<close>

theorem ReLULayer_Backward_correct:
  assumes cache: "relu_lastInput r = Some x"
    and x: "has_shape x n k" and g: "has_shape g n k"
  shows "\<exists>gradInput. ReLULayer_Backward r g = (Inr gradInput, r) \<and> has_shape gradInput n k \<and>
           (\<forall>i<n. \<forall>j<k. Data gradInput ! i ! j = (if Data x ! i ! j > 0 then Data g ! i ! j else 0))"
proof -
  let ?body = "\<lambda>i j gradInput.
        bindE (case relu_lastInput r of
                 None \<Rightarrow> Inl (Panic NilDereference)
               | Some x \<Rightarrow> mat_get x i j)
              (\<lambda>x. if x > 0
                    then bindE (mat_get g i j) (\<lambda>g. mat_set gradInput i j g)
                    else Inr gradInput)"
  let ?f = "\<lambda>i j. if Data x ! i ! j > 0 then Data g ! i ! j else 0"
  have "\<exists>y. forM [0..<n] (\<lambda>i. forM [0..<k] (?body i)) (NewMatrix n k) = Inr y \<and> has_shape y n k \<and>
           (\<forall>i<n. \<forall>j<k. Data y ! i ! j = ?f i j)"
  proof (rule fill_loop_shape [OF has_shape_NewMatrix])
    fix i j y assume i: "i < n" and j: "j < k" and fr: "framed (NewMatrix n k) y"
      and e: "Data y ! i ! j = Data (NewMatrix n k) ! i ! j"
    from e i j have z: "Data y ! i ! j = 0" by simp
    show "?body i j y = Inr (y\<lparr>Data := (Data y)[i := (Data y ! i)[j := ?f i j]]\<rparr>)"
      using cache i j mat_get_shape [OF x i j] mat_get_shape [OF g i j]
        mat_set_framed [OF fr, of i j] update_same [OF z]
      by simp
  qed
  then show ?thesis
    using g by (auto simp: ReLULayer_Backward_def has_shapeD)
qed

text \<open>
  The theorem on the cache that \<open>Forward\<close> leaves: the entries over the inputs \<open>1\<close> and \<open>2\<close>
  pass, the entries over \<open>0\<close> and \<open>-1\<close> are zero.
\<close>

theorem ReLULayer_Backward_correct_witness:
  "relu_lastInput (snd (ReLULayer_Forward \<lparr>relu_lastInput = None\<rparr> relu_input)) = Some relu_input \<and>
   has_shape relu_input 2 2 \<and> has_shape relu_grad 2 2 \<and>
   (\<exists>gradInput.
      fst (ReLULayer_Backward (snd (ReLULayer_Forward \<lparr>relu_lastInput = None\<rparr> relu_input)) relu_grad)
        = Inr gradInput \<and>
      Data gradInput ! 0 ! 0 = 5 \<and> Data gradInput ! 0 ! 1 = 0 \<and>
      Data gradInput ! 1 ! 0 = 0 \<and> Data gradInput ! 1 ! 1 = 8)"
proof -
  have c: "relu_lastInput (snd (ReLULayer_Forward \<lparr>relu_lastInput = None\<rparr> relu_input)) = Some relu_input"
    by (simp add: ReLULayer_Forward_def)
  have x: "has_shape relu_input 2 2"
    unfolding relu_input_def by code_simp
  have g: "has_shape relu_grad 2 2"
    unfolding relu_grad_def by code_simp
  have v: "Data relu_input ! 0 ! 0 = 1" "Data relu_input ! 0 ! 1 = 0"
    "Data relu_input ! 1 ! 0 = - 1" "Data relu_input ! 1 ! 1 = 2"
    "Data relu_grad ! 0 ! 0 = 5" "Data relu_grad ! 1 ! 1 = 8"
    by (simp_all add: relu_input_def relu_grad_def)
  from ReLULayer_Backward_correct [OF c x g] obtain gradInput where
    r: "ReLULayer_Backward (snd (ReLULayer_Forward \<lparr>relu_lastInput = None\<rparr> relu_input)) relu_grad
          = (Inr gradInput, snd (ReLULayer_Forward \<lparr>relu_lastInput = None\<rparr> relu_input))"
    and e: "\<forall>i<2. \<forall>j<2. Data gradInput ! i ! j
              = (if Data relu_input ! i ! j > 0 then Data relu_grad ! i ! j else 0)"
    by blast
  have "Data gradInput ! 0 ! 0 = 5" "Data gradInput ! 0 ! 1 = 0"
    "Data gradInput ! 1 ! 0 = 0" "Data gradInput ! 1 ! 1 = 8"
    using e v by simp_all
  with c x g r show ?thesis by simp
qed


lemma fill_row_shape:
  assumes sh: "has_shape x0 n k" and i: "i < n"
    and body: "\<And>j x. j < k \<Longrightarrow> framed x0 x \<Longrightarrow> Data x ! i ! j = Data x0 ! i ! j \<Longrightarrow>
                 body j x = Inr (x\<lparr>Data := (Data x)[i := (Data x ! i)[j := f j]]\<rparr>)"
  shows "\<exists>x. forM [0..<k] body x0 = Inr x \<and> has_shape x n k \<and>
           (\<forall>j<k. Data x ! i ! j = f j) \<and> (\<forall>r<n. r \<noteq> i \<longrightarrow> Data x ! r = Data x0 ! r)"
proof -
  have "\<exists>x. forM [0..<k] body x0 = Inr x \<and> framed x0 x \<and>
           (\<forall>r<length (Data x0). \<forall>c<length (Data x0 ! r).
               Data x ! r ! c = (if r = i \<and> c < k then f c else Data x0 ! r ! c))"
    by (rule fill_row) (use sh i body in \<open>simp_all add: has_shapeD\<close>)
  then obtain x where x: "forM [0..<k] body x0 = Inr x" "framed x0 x"
    "\<forall>r<length (Data x0). \<forall>c<length (Data x0 ! r).
               Data x ! r ! c = (if r = i \<and> c < k then f c else Data x0 ! r ! c)" by blast
  have 1: "\<forall>j<k. Data x ! i ! j = f j"
    using x(3) sh i by (simp add: has_shapeD)
  have 2: "\<forall>r<n. r \<noteq> i \<longrightarrow> Data x ! r = Data x0 ! r"
  proof (intro allI impI)
    fix r assume r: "r < n" "r \<noteq> i"
    show "Data x ! r = Data x0 ! r"
      using x(3) x(2) sh r by (intro nth_equalityI) (simp_all add: has_shapeD framed_row_length)
  qed
  from x(1) framed_has_shape [OF x(2) sh] 1 2 show ?thesis by blast
qed

section \<open>The dense layer\<close>

text \<open>
  Claim C1, as the code has it. Let a dense layer built by \<open>NewDense\<close> hold the cached input
  \<open>X\<close> with \<open>B\<close> rows, \<open>B \<ge> 1\<close>, and let \<open>gradOutput\<close> have \<open>OutputSize\<close> columns and the same
  \<open>B\<close> rows. Then \<open>Backward\<close> succeeds; it stores the weight gradient
  \<open>(1/B) \<cdot> \<Sum>b. X[b][i] \<cdot> gradOutput[b][j]\<close> and the bias gradient \<open>(1/B) \<cdot> \<Sum>b. gradOutput[b][j]\<close>,
  changes nothing else of the layer, and returns the input gradient with entry \<open>[b][i]\<close>
  equal to \<open>\<Sum>k. gradOutput[b][k] \<cdot> weights[i][k]\<close>, not divided by \<open>B\<close>.
\<close>

theorem Dense_Backward_correct:
  assumes d: "wf_Dense d"
    and cache: "lastInput d = Some X"
    and X: "has_shape X B (InputSize d)"
    and g: "has_shape g B (OutputSize d)"
    and B: "1 \<le> B"
  shows "\<exists>gradInput wg bg.
           Dense_Backward d g = (Inr gradInput, d\<lparr>weightsGrad := wg, biasGrad := bg\<rparr>) \<and>
           has_shape wg (InputSize d) (OutputSize d) \<and>
           (\<forall>i<InputSize d. \<forall>j<OutputSize d.
              Data wg ! i ! j = (1 / real B) * (\<Sum>b<B. Data X ! b ! i * Data g ! b ! j)) \<and>
           has_shape bg 1 (OutputSize d) \<and>
           (\<forall>j<OutputSize d. Data bg ! 0 ! j = (1 / real B) * (\<Sum>b<B. Data g ! b ! j)) \<and>
           has_shape gradInput B (InputSize d) \<and>
           (\<forall>b<B. \<forall>i<InputSize d.
              Data gradInput ! b ! i = (\<Sum>k<OutputSize d. Data g ! b ! k * Data (Weights d) ! i ! k))"
proof -
  let ?In = "InputSize d" and ?Out = "OutputSize d"
  from d have W: "has_shape (Weights d) ?In ?Out" and wg0: "has_shape (weightsGrad d) ?In ?Out"
    and bg0: "has_shape (biasGrad d) 1 ?Out"
    by (simp_all add: wf_Dense_def)
  have gR: "Rows g = B" and gC: "Cols g = ?Out" and XR: "Rows X = B"
    using g X by (simp_all add: has_shapeD)
  let ?fw = "\<lambda>i j. (1 / real B) * (\<Sum>b<B. Data X ! b ! i * Data g ! b ! j)"
  let ?bw = "\<lambda>i j wg.
              bindE (case lastInput d of
                       None \<Rightarrow> Inl (Panic NilDereference)
                     | Some x \<Rightarrow> forM [0..<Rows x] (\<lambda>b sum.
                         bindE (mat_get x b i) (\<lambda>a.
                         bindE (mat_get g b j) (\<lambda>g. Inr (sum + a * g)))) 0)
                    (\<lambda>sum. mat_set wg i j (sum / real (Rows g)))"
  have "\<exists>wg. forM [0..<?In] (\<lambda>i. forM [0..<?Out] (?bw i)) (weightsGrad d) = Inr wg \<and>
          has_shape wg ?In ?Out \<and> (\<forall>i<?In. \<forall>j<?Out. Data wg ! i ! j = ?fw i j)"
  proof (rule fill_loop_shape [OF wg0])
    fix i j x assume i: "i < ?In" and j: "j < ?Out" and fr: "framed (weightsGrad d) x"
    have "forM [0..<B] (\<lambda>b sum.
                         bindE (mat_get X b i) (\<lambda>a.
                         bindE (mat_get g b j) (\<lambda>g. Inr (sum + a * g)))) 0
          = Inr (0 + (\<Sum>b<B. Data X ! b ! i * Data g ! b ! j))"
      by (rule forM_sum) (use i j in \<open>simp add: mat_get_shape [OF X] mat_get_shape [OF g]\<close>)
    then show "?bw i j x = Inr (x\<lparr>Data := (Data x)[i := (Data x ! i)[j := ?fw i j]]\<rparr>)"
      using mat_set_framed [OF fr, of i j] i j wg0 cache gR XR by (simp add: has_shapeD)
  qed
  then obtain wg where wg: "forM [0..<?In] (\<lambda>i. forM [0..<?Out] (?bw i)) (weightsGrad d) = Inr wg"
    "has_shape wg ?In ?Out" "\<forall>i<?In. \<forall>j<?Out. Data wg ! i ! j = ?fw i j" by blast
  let ?fb = "\<lambda>j. (1 / real B) * (\<Sum>b<B. Data g ! b ! j)"
  let ?bb = "\<lambda>j bg.
                  bindE (forM [0..<Rows g] (\<lambda>i sum.
                           bindE (mat_get g i j) (\<lambda>g. Inr (sum + g))) 0)
                        (\<lambda>sum. mat_set bg 0 j (sum / real (Rows g)))"
  have "\<exists>bg. forM [0..<?Out] ?bb (biasGrad d) = Inr bg \<and> has_shape bg 1 ?Out \<and>
          (\<forall>j<?Out. Data bg ! 0 ! j = ?fb j) \<and> (\<forall>r<1. r \<noteq> 0 \<longrightarrow> Data bg ! r = Data (biasGrad d) ! r)"
  proof (rule fill_row_shape [OF bg0])
    fix j x assume j: "j < ?Out" and fr: "framed (biasGrad d) x"
    have "forM [0..<B] (\<lambda>i sum. bindE (mat_get g i j) (\<lambda>g. Inr (sum + g))) 0
          = Inr (0 + (\<Sum>b<B. Data g ! b ! j))"
      by (rule forM_sum) (use j in \<open>simp add: mat_get_shape [OF g]\<close>)
    then show "?bb j x = Inr (x\<lparr>Data := (Data x)[0 := (Data x ! 0)[j := ?fb j]]\<rparr>)"
      using mat_set_framed [OF fr, of 0 j] j bg0 gR by (simp add: has_shapeD)
  qed simp
  then obtain bg where bg: "forM [0..<?Out] ?bb (biasGrad d) = Inr bg"
    "has_shape bg 1 ?Out" "\<forall>j<?Out. Data bg ! 0 ! j = ?fb j" by blast
  let ?fi = "\<lambda>b i. \<Sum>k<?Out. Data g ! b ! k * Data (Weights d) ! i ! k"
  let ?bi = "\<lambda>i j gradInput.
                  bindE (forM [0..<?Out] (\<lambda>k sum.
                           bindE (mat_get g i k) (\<lambda>g.
                           bindE (mat_get (Weights d) j k) (\<lambda>w. Inr (sum + g * w)))) 0)
                        (\<lambda>sum. mat_set gradInput i j sum)"
  have "\<exists>gi. forM [0..<B] (\<lambda>i. forM [0..<?In] (?bi i)) (NewMatrix B ?In) = Inr gi \<and>
          has_shape gi B ?In \<and> (\<forall>b<B. \<forall>i<?In. Data gi ! b ! i = ?fi b i)"
  proof (rule fill_loop_shape [OF has_shape_NewMatrix])
    fix b i x assume b: "b < B" and i: "i < ?In" and fr: "framed (NewMatrix B ?In) x"
    have "forM [0..<?Out] (\<lambda>k sum.
                           bindE (mat_get g b k) (\<lambda>g.
                           bindE (mat_get (Weights d) i k) (\<lambda>w. Inr (sum + g * w)))) 0
          = Inr (0 + (\<Sum>k<?Out. Data g ! b ! k * Data (Weights d) ! i ! k))"
      by (rule forM_sum) (use b i in \<open>simp add: mat_get_shape [OF W] mat_get_shape [OF g]\<close>)
    then show "?bi b i x = Inr (x\<lparr>Data := (Data x)[b := (Data x ! b)[i := ?fi b i]]\<rparr>)"
      using mat_set_framed [OF fr, of b i] b i by simp
  qed
  then obtain gi where gi: "forM [0..<B] (\<lambda>i. forM [0..<?In] (?bi i)) (NewMatrix B ?In) = Inr gi"
    "has_shape gi B ?In" "\<forall>b<B. \<forall>i<?In. Data gi ! b ! i = ?fi b i" by blast
  have "Dense_Backward d g = (Inr gi, d\<lparr>weightsGrad := wg, biasGrad := bg\<rparr>)"
    using wg(1) bg(1) gi(1) gR gC by (simp add: Dense_Backward_def)
  with wg(2,3) bg(2,3) gi(2,3) show ?thesis by blast
qed

text \<open>
  The theorem on the cache that \<open>Forward\<close> leaves for a batch of two samples:
  the weight gradient is \<open>[[7/2], [5]]\<close>, the bias gradient \<open>[[3/2]]\<close>, and the first row of the
  input gradient is \<open>[3, 4]\<close>.
\<close>

theorem Dense_Backward_correct_witness:
  "(1::nat) \<le> 2 \<and>
   wf_Dense (snd (Dense_Forward dense_2_1 batch_2_2)) \<and>
   lastInput (snd (Dense_Forward dense_2_1 batch_2_2)) = Some batch_2_2 \<and>
   has_shape batch_2_2 2 (InputSize (snd (Dense_Forward dense_2_1 batch_2_2))) \<and>
   has_shape grad_2_1 2 (OutputSize (snd (Dense_Forward dense_2_1 batch_2_2))) \<and>
   (\<exists>gradInput wg bg.
      Dense_Backward (snd (Dense_Forward dense_2_1 batch_2_2)) grad_2_1
        = (Inr gradInput, (snd (Dense_Forward dense_2_1 batch_2_2))\<lparr>weightsGrad := wg, biasGrad := bg\<rparr>) \<and>
      Data wg ! 0 ! 0 = 7 / 2 \<and> Data wg ! 1 ! 0 = 5 \<and> Data bg ! 0 ! 0 = 3 / 2 \<and>
      Data gradInput ! 0 ! 0 = 3 \<and> Data gradInput ! 0 ! 1 = 4)"
proof -
  let ?d = "snd (Dense_Forward dense_2_1 batch_2_2)"
  have d: "wf_Dense ?d"
    unfolding dense_2_1_def batch_2_2_def by code_simp
  have c: "lastInput ?d = Some batch_2_2"
    by (simp add: Dense_Forward_def dense_2_1_def batch_2_2_def)
  have i: "InputSize ?d = 2" and o: "OutputSize ?d = 1"
    and w: "Data (Weights ?d) = [[3], [4]]"
    by (simp_all add: Dense_Forward_def dense_2_1_def batch_2_2_def)
  have x: "has_shape batch_2_2 2 (InputSize ?d)"
    unfolding dense_2_1_def batch_2_2_def by code_simp
  have g: "has_shape grad_2_1 2 (OutputSize ?d)"
    unfolding dense_2_1_def batch_2_2_def grad_2_1_def by code_simp
  have b: "(1::nat) \<le> 2" by simp
  from Dense_Backward_correct [OF d c x g b] obtain gradInput wg bg where
    r: "Dense_Backward ?d grad_2_1 = (Inr gradInput, ?d\<lparr>weightsGrad := wg, biasGrad := bg\<rparr>)"
    and ew: "\<forall>i<InputSize ?d. \<forall>j<OutputSize ?d.
              Data wg ! i ! j = (1 / real 2) * (\<Sum>b<2. Data batch_2_2 ! b ! i * Data grad_2_1 ! b ! j)"
    and eb: "\<forall>j<OutputSize ?d. Data bg ! 0 ! j = (1 / real 2) * (\<Sum>b<2. Data grad_2_1 ! b ! j)"
    and ei: "\<forall>b<2. \<forall>i<InputSize ?d.
              Data gradInput ! b ! i = (\<Sum>k<OutputSize ?d. Data grad_2_1 ! b ! k * Data (Weights ?d) ! i ! k)"
    by blast
  have s2: "{..<2::nat} = {0, 1}" by auto
  have "Data wg ! 0 ! 0 = 7 / 2"
    using ew [rule_format, of 0 0] i o by (simp add: s2 batch_2_2_def grad_2_1_def)
  moreover have "Data wg ! 1 ! 0 = 5"
    using ew [rule_format, of 1 0] i o by (simp add: s2 batch_2_2_def grad_2_1_def)
  moreover have "Data bg ! 0 ! 0 = 3 / 2"
    using eb [rule_format, of 0] o by (simp add: s2 grad_2_1_def)
  moreover have "Data gradInput ! 0 ! 0 = 3"
    using ei [rule_format, of 0 0] i o w by (simp add: grad_2_1_def)
  moreover have "Data gradInput ! 0 ! 1 = 4"
    using ei [rule_format, of 0 1] i o w by (simp add: grad_2_1_def)
  ultimately show ?thesis using d c x g b r by blast
qed

text \<open>
  Claim C1 as it is stated lets \<open>gradOutput\<close> have any number of rows and takes \<open>B\<close> from the
  cached input. The code divides by the rows of \<open>gradOutput\<close>: with a cached input of one row
  \<open>[1, 2]\<close> and the two-row gradient \<open>[[1], [2]]\<close>, \<open>Backward\<close> returns without error and stores
  the weight gradient \<open>1/2\<close> at \<open>[0][0]\<close>, where \<open>(1/B) \<cdot> \<Sum>b<B. X[b][0] \<cdot> gradOutput[b][0]\<close> with
  \<open>B = 1\<close> is \<open>1\<close>.
\<close>

theorem Dense_Backward_rows_counterexample:
  "lastInput (snd (Dense_Forward dense_2_1 batch_1_2)) = Some batch_1_2 \<and>
   Rows batch_1_2 = 1 \<and>
   Cols grad_2_1 = OutputSize (snd (Dense_Forward dense_2_1 batch_1_2)) \<and>
   (\<exists>gradInput. fst (Dense_Backward (snd (Dense_Forward dense_2_1 batch_1_2)) grad_2_1) = Inr gradInput) \<and>
   Data (weightsGrad (snd (Dense_Backward (snd (Dense_Forward dense_2_1 batch_1_2)) grad_2_1))) ! 0 ! 0 = 1 / 2 \<and>
   (1 / real (Rows batch_1_2)) * (\<Sum>b<Rows batch_1_2. Data batch_1_2 ! b ! 0 * Data grad_2_1 ! b ! 0) = 1"
proof -
  have "Dense_Backward (snd (Dense_Forward dense_2_1 batch_1_2)) grad_2_1 =
    (Inr \<lparr>Rows = 2, Cols = 2, Data = [[3, 4], [6, 8]]\<rparr>,
     (snd (Dense_Forward dense_2_1 batch_1_2))
       \<lparr>weightsGrad := \<lparr>Rows = 2, Cols = 1, Data = [[1 / 2], [1]]\<rparr>,
        biasGrad := \<lparr>Rows = 1, Cols = 1, Data = [[3 / 2]]\<rparr>\<rparr>)"
    unfolding dense_2_1_def batch_1_2_def grad_2_1_def by code_simp
  then show ?thesis
    by (simp add: Dense_Forward_def dense_2_1_def batch_1_2_def grad_2_1_def)
qed

section \<open>Mean squared error\<close>

lemma forM_sum2:
  assumes "\<And>i j s. i < n \<Longrightarrow> j < k \<Longrightarrow> body i j s = Inr (s + h i j)"
  shows "forM [0..<n] (\<lambda>i. forM [0..<k] (body i)) (s0::real) = Inr (s0 + (\<Sum>i<n. \<Sum>j<k. h i j))"
proof (rule forM_sum)
  fix i s assume "i < n"
  then show "forM [0..<k] (body i) s = Inr (s + (\<Sum>j<k. h i j))"
    by (intro forM_sum) (simp add: assms)
qed

lemma MSE_Forward_value:
  assumes P: "has_shape P n k" and Y: "has_shape Y n k" and small: "n * k < 2 ^ 63"
  shows "MSE_Forward P Y = Inr ((\<Sum>i<n. \<Sum>j<k. (Data Y ! i ! j - Data P ! i ! j)\<^sup>2) / (2 * real (n * k)))"
proof -
  have "forM [0..<n] (\<lambda>i. forM [0..<k] (\<lambda>j totalLoss.
                bindE (mat_get Y i j) (\<lambda>t.
                bindE (mat_get P i j) (\<lambda>p.
                let diff = t - p in Inr (totalLoss + diff * diff))))) 0
        = Inr (0 + (\<Sum>i<n. \<Sum>j<k. (Data Y ! i ! j - Data P ! i ! j)\<^sup>2))"
    by (rule forM_sum2) (simp add: mat_get_shape [OF P] mat_get_shape [OF Y] power2_eq_square Let_def)
  then show ?thesis
    using P Y wrap64_nat [OF small] by (simp add: MSE_Forward_def has_shapeD)
qed

lemma MSE_Backward_value:
  assumes P: "has_shape P n k" and Y: "has_shape Y n k" and small: "n * k < 2 ^ 63"
  shows "\<exists>G. MSE_Backward P Y = Inr G \<and> has_shape G n k \<and>
           (\<forall>i<n. \<forall>j<k. Data G ! i ! j = - (Data Y ! i ! j - Data P ! i ! j) / real (n * k))"
proof -
  let ?body = "\<lambda>i j gradient.
          bindE (mat_get Y i j) (\<lambda>t.
          bindE (mat_get P i j) (\<lambda>p.
          mat_set gradient i j (- (t - p) / real (n * k))))"
  have "\<exists>G. forM [0..<n] (\<lambda>i. forM [0..<k] (?body i)) (NewMatrix n k) = Inr G \<and> has_shape G n k \<and>
           (\<forall>i<n. \<forall>j<k. Data G ! i ! j = - (Data Y ! i ! j - Data P ! i ! j) / real (n * k))"
  proof (rule fill_loop_shape [OF has_shape_NewMatrix])
    fix i j x assume i: "i < n" and j: "j < k" and fr: "framed (NewMatrix n k) x"
    show "?body i j x = Inr (x\<lparr>Data := (Data x)[i := (Data x ! i)
             [j := - (Data Y ! i ! j - Data P ! i ! j) / real (n * k)]]\<rparr>)"
      using mat_set_framed [OF fr, of i j] i j
      by (simp add: mat_get_shape [OF P] mat_get_shape [OF Y])
  qed
  then show ?thesis
    using P Y wrap64_nat [OF small] by (simp add: MSE_Backward_def has_shapeD)
qed

text \<open>
  Claim C6, as the code has it. For well-formed matrices \<open>P\<close> and \<open>Y\<close> of one shape \<open>n \<times> k\<close>
  with at least one entry (\<open>n \<cdot> k \<ge> 1\<close>, so that the code does not divide by zero) and with
  \<open>n \<cdot> k\<close> in the range of \<open>int\<close> (so that the code computes the number of entries without
  overflow), \<open>MSE.Forward(P, Y)\<close> and \<open>MSE.Forward(Y, P)\<close> return the same loss, and \<open>MSE.Backward(P, Y)\<close>
  is entry by entry the negation of \<open>MSE.Backward(Y, P)\<close>. For \<open>P = [[2]]\<close> and \<open>Y = [[0]]\<close> the
  loss is \<open>2\<close> and the gradient is \<open>[[2]]\<close>: the gradient is \<open>-(y - p)/N\<close>, which is positive
  where the prediction exceeds the target.
\<close>

theorem MSE_symmetry:
  assumes P: "has_shape P n k" and Y: "has_shape Y n k"
    and nonempty: "1 \<le> n * k" and small: "n * k < 2 ^ 63"
  shows "(\<exists>loss. MSE_Forward P Y = Inr loss \<and> MSE_Forward Y P = Inr loss) \<and>
         (\<exists>G H. MSE_Backward P Y = Inr G \<and> MSE_Backward Y P = Inr H \<and>
                 has_shape G n k \<and> has_shape H n k \<and>
                 (\<forall>i<n. \<forall>j<k. Data G ! i ! j = - Data H ! i ! j)) \<and>
         MSE_Forward \<lparr>Rows = 1, Cols = 1, Data = [[2]]\<rparr> \<lparr>Rows = 1, Cols = 1, Data = [[0]]\<rparr> = Inr 2 \<and>
         MSE_Backward \<lparr>Rows = 1, Cols = 1, Data = [[2]]\<rparr> \<lparr>Rows = 1, Cols = 1, Data = [[0]]\<rparr>
           = Inr \<lparr>Rows = 1, Cols = 1, Data = [[2]]\<rparr>"
proof (intro conjI)
  show "\<exists>loss. MSE_Forward P Y = Inr loss \<and> MSE_Forward Y P = Inr loss"
    by (simp add: MSE_Forward_value [OF P Y small] MSE_Forward_value [OF Y P small] power2_commute)
next
  from MSE_Backward_value [OF P Y small] obtain G where G: "MSE_Backward P Y = Inr G" "has_shape G n k"
    "\<forall>i<n. \<forall>j<k. Data G ! i ! j = - (Data Y ! i ! j - Data P ! i ! j) / real (n * k)" by blast
  from MSE_Backward_value [OF Y P small] obtain H where H: "MSE_Backward Y P = Inr H" "has_shape H n k"
    "\<forall>i<n. \<forall>j<k. Data H ! i ! j = - (Data P ! i ! j - Data Y ! i ! j) / real (n * k)" by blast
  have "\<forall>i<n. \<forall>j<k. Data G ! i ! j = - Data H ! i ! j"
    using G(3) H(3) by (simp add: diff_divide_distrib)
  with G H show "\<exists>G H. MSE_Backward P Y = Inr G \<and> MSE_Backward Y P = Inr H \<and>
                 has_shape G n k \<and> has_shape H n k \<and>
                 (\<forall>i<n. \<forall>j<k. Data G ! i ! j = - Data H ! i ! j)" by blast
next
  show "MSE_Forward \<lparr>Rows = 1, Cols = 1, Data = [[2]]\<rparr> \<lparr>Rows = 1, Cols = 1, Data = [[0]]\<rparr> = Inr 2"
    by code_simp
next
  show "MSE_Backward \<lparr>Rows = 1, Cols = 1, Data = [[2]]\<rparr> \<lparr>Rows = 1, Cols = 1, Data = [[0]]\<rparr>
           = Inr \<lparr>Rows = 1, Cols = 1, Data = [[2]]\<rparr>"
    by code_simp
qed

text \<open>
  Claim C6 as it is stated gives the gradient \<open>[[-2]]\<close> for \<open>P = [[2]]\<close>, \<open>Y = [[0]]\<close>; the code
  returns \<open>-(0 - 2)/1 = 2\<close>.
\<close>

theorem MSE_gradient_counterexample:
  "MSE_Backward \<lparr>Rows = 1, Cols = 1, Data = [[2]]\<rparr> \<lparr>Rows = 1, Cols = 1, Data = [[0]]\<rparr>
     \<noteq> Inr \<lparr>Rows = 1, Cols = 1, Data = [[- 2]]\<rparr>"
  by code_simp

text \<open>The theorem at \<open>P = [[1, 3]]\<close>, \<open>Y = [[0, 5]]\<close>.\<close>

theorem MSE_symmetry_witness:
  "has_shape \<lparr>Rows = 1, Cols = 2, Data = [[1, 3]]\<rparr> 1 2 \<and> has_shape \<lparr>Rows = 1, Cols = 2, Data = [[0, 5]]\<rparr> 1 2 \<and>
   (1::nat) \<le> 1 * 2 \<and> (1::nat) * 2 < 2 ^ 63 \<and>
   (\<exists>loss. MSE_Forward \<lparr>Rows = 1, Cols = 2, Data = [[1, 3]]\<rparr> \<lparr>Rows = 1, Cols = 2, Data = [[0, 5]]\<rparr> = Inr loss \<and>
            MSE_Forward \<lparr>Rows = 1, Cols = 2, Data = [[0, 5]]\<rparr> \<lparr>Rows = 1, Cols = 2, Data = [[1, 3]]\<rparr> = Inr loss)"
proof -
  have p: "has_shape \<lparr>Rows = 1, Cols = 2, Data = [[1, 3]]\<rparr> 1 2" by code_simp
  have y: "has_shape \<lparr>Rows = 1, Cols = 2, Data = [[0, 5]]\<rparr> 1 2" by code_simp
  have n: "(1::nat) \<le> 1 * 2" and s: "(1::nat) * 2 < 2 ^ 63" by simp_all
  from MSE_symmetry [OF p y n s] p y n s show ?thesis by blast
qed

section \<open>Loops that fill two matrices at once\<close>

lemma row_step:
  assumes "framed x0 x"
    and "\<forall>r<length (Data x0). \<forall>c<length (Data x0 ! r).
               Data x ! r ! c = (if r = i \<and> c < j then f c else Data x0 ! r ! c)"
    and "i < length (Data x0)" and "j < length (Data x0 ! i)"
  shows "framed x0 (x\<lparr>Data := (Data x)[i := (Data x ! i)[j := f j]]\<rparr>) \<and>
         (\<forall>r<length (Data x0). \<forall>c<length (Data x0 ! r).
               Data (x\<lparr>Data := (Data x)[i := (Data x ! i)[j := f j]]\<rparr>) ! r ! c
                 = (if r = i \<and> c < Suc j then f c else Data x0 ! r ! c))"
  using assms
  by (auto simp: framed_update framed_length framed_row_length nth_list_update less_Suc_eq)

lemma loop_step:
  assumes "framed x0 x"
    and "\<forall>r<length (Data x0). \<forall>c<length (Data x0 ! r).
               Data x ! r ! c = (if r < i \<and> c < k then f r c else Data x0 ! r ! c)"
    and "framed x x'"
    and "\<forall>r<length (Data x). \<forall>c<length (Data x ! r).
               Data x' ! r ! c = (if r = i \<and> c < k then f i c else Data x ! r ! c)"
  shows "framed x0 x' \<and>
         (\<forall>r<length (Data x0). \<forall>c<length (Data x0 ! r).
               Data x' ! r ! c = (if r < Suc i \<and> c < k then f r c else Data x0 ! r ! c))"
  using assms framed_trans [OF assms(1,3)]
  by (auto simp: framed_length framed_row_length less_Suc_eq)

lemma fill_row2:
  assumes i: "i < length (Data v0)" "i < length (Data u0)"
    and k: "k \<le> length (Data v0 ! i)" "k \<le> length (Data u0 ! i)"
    and body: "\<And>j v u. j < k \<Longrightarrow> framed v0 v \<Longrightarrow> framed u0 u \<Longrightarrow> Data v ! i ! j = Data v0 ! i ! j \<Longrightarrow>
                 body j (v, u) = Inr (v\<lparr>Data := (Data v)[i := (Data v ! i)[j := fv j]]\<rparr>,
                                      u\<lparr>Data := (Data u)[i := (Data u ! i)[j := fu j]]\<rparr>)"
  shows "\<exists>v u. forM [0..<k] body (v0, u0) = Inr (v, u) \<and> framed v0 v \<and> framed u0 u \<and>
           (\<forall>r<length (Data v0). \<forall>c<length (Data v0 ! r).
               Data v ! r ! c = (if r = i \<and> c < k then fv c else Data v0 ! r ! c)) \<and>
           (\<forall>r<length (Data u0). \<forall>c<length (Data u0 ! r).
               Data u ! r ! c = (if r = i \<and> c < k then fu c else Data u0 ! r ! c))"
proof -
  let ?I = "\<lambda>n t. framed v0 (fst t) \<and> framed u0 (snd t) \<and>
           (\<forall>r<length (Data v0). \<forall>c<length (Data v0 ! r).
               Data (fst t) ! r ! c = (if r = i \<and> c < n then fv c else Data v0 ! r ! c)) \<and>
           (\<forall>r<length (Data u0). \<forall>c<length (Data u0 ! r).
               Data (snd t) ! r ! c = (if r = i \<and> c < n then fu c else Data u0 ! r ! c))"
  have "\<exists>t. forM [0..<k] body (v0, u0) = Inr t \<and> ?I k t"
  proof (rule forM_upt_rule [where I = ?I])
    show "?I 0 (v0, u0)" by simp
  next
    fix j t assume j: "j < k" and I: "?I j t"
    obtain v u where t: "t = (v, u)" by (cases t)
    from I t have fv: "framed v0 v" and fu: "framed u0 u"
      and ev: "\<forall>r<length (Data v0). \<forall>c<length (Data v0 ! r).
               Data v ! r ! c = (if r = i \<and> c < j then fv c else Data v0 ! r ! c)"
      and eu: "\<forall>r<length (Data u0). \<forall>c<length (Data u0 ! r).
               Data u ! r ! c = (if r = i \<and> c < j then fu c else Data u0 ! r ! c)"
      by simp_all
    have jv: "j < length (Data v0 ! i)" and ju: "j < length (Data u0 ! i)"
      using j k by simp_all
    from ev i(1) jv have "Data v ! i ! j = Data v0 ! i ! j" by simp
    from body [OF j fv fu this]
    have b: "body j t = Inr (v\<lparr>Data := (Data v)[i := (Data v ! i)[j := fv j]]\<rparr>,
                              u\<lparr>Data := (Data u)[i := (Data u ! i)[j := fu j]]\<rparr>)"
      by (simp add: t)
    have "?I (Suc j) (v\<lparr>Data := (Data v)[i := (Data v ! i)[j := fv j]]\<rparr>,
                      u\<lparr>Data := (Data u)[i := (Data u ! i)[j := fu j]]\<rparr>)"
      using row_step [OF fv ev i(1) jv] row_step [OF fu eu i(2) ju] by simp
    with b show "\<exists>t'. body j t = Inr t' \<and> ?I (Suc j) t'" by blast
  qed
  then obtain t where "forM [0..<k] body (v0, u0) = Inr t" "?I k t" by blast
  then show ?thesis by (cases t) simp
qed

lemma fill_loop2:
  assumes n: "n \<le> length (Data v0)" "n \<le> length (Data u0)"
    and k: "\<forall>i<n. k \<le> length (Data v0 ! i)" "\<forall>i<n. k \<le> length (Data u0 ! i)"
    and body: "\<And>i j v u. i < n \<Longrightarrow> j < k \<Longrightarrow> framed v0 v \<Longrightarrow> framed u0 u \<Longrightarrow>
                 Data v ! i ! j = Data v0 ! i ! j \<Longrightarrow>
                 body i j (v, u) = Inr (v\<lparr>Data := (Data v)[i := (Data v ! i)[j := fv i j]]\<rparr>,
                                        u\<lparr>Data := (Data u)[i := (Data u ! i)[j := fu i j]]\<rparr>)"
  shows "\<exists>v u. forM [0..<n] (\<lambda>i. forM [0..<k] (body i)) (v0, u0) = Inr (v, u) \<and>
           framed v0 v \<and> framed u0 u \<and>
           (\<forall>r<length (Data v0). \<forall>c<length (Data v0 ! r).
               Data v ! r ! c = (if r < n \<and> c < k then fv r c else Data v0 ! r ! c)) \<and>
           (\<forall>r<length (Data u0). \<forall>c<length (Data u0 ! r).
               Data u ! r ! c = (if r < n \<and> c < k then fu r c else Data u0 ! r ! c))"
proof -
  let ?I = "\<lambda>m t. framed v0 (fst t) \<and> framed u0 (snd t) \<and>
           (\<forall>r<length (Data v0). \<forall>c<length (Data v0 ! r).
               Data (fst t) ! r ! c = (if r < m \<and> c < k then fv r c else Data v0 ! r ! c)) \<and>
           (\<forall>r<length (Data u0). \<forall>c<length (Data u0 ! r).
               Data (snd t) ! r ! c = (if r < m \<and> c < k then fu r c else Data u0 ! r ! c))"
  have "\<exists>t. forM [0..<n] (\<lambda>i. forM [0..<k] (body i)) (v0, u0) = Inr t \<and> ?I n t"
  proof (rule forM_upt_rule [where I = ?I])
    show "?I 0 (v0, u0)" by simp
  next
    fix i t assume i: "i < n" and I: "?I i t"
    obtain v u where t: "t = (v, u)" by (cases t)
    from I t have fv: "framed v0 v" and fu: "framed u0 u"
      and ev: "\<forall>r<length (Data v0). \<forall>c<length (Data v0 ! r).
               Data v ! r ! c = (if r < i \<and> c < k then fv r c else Data v0 ! r ! c)"
      and eu: "\<forall>r<length (Data u0). \<forall>c<length (Data u0 ! r).
               Data u ! r ! c = (if r < i \<and> c < k then fu r c else Data u0 ! r ! c)"
      by simp_all
    have il: "i < length (Data v)" "i < length (Data u)"
      using fv fu i n by (simp_all add: framed_length)
    have kl: "k \<le> length (Data v ! i)" "k \<le> length (Data u ! i)"
      using fv fu i n k by (simp_all add: framed_row_length)
    have "\<exists>v' u'. forM [0..<k] (body i) (v, u) = Inr (v', u') \<and> framed v v' \<and> framed u u' \<and>
           (\<forall>r<length (Data v). \<forall>c<length (Data v ! r).
               Data v' ! r ! c = (if r = i \<and> c < k then fv i c else Data v ! r ! c)) \<and>
           (\<forall>r<length (Data u). \<forall>c<length (Data u ! r).
               Data u' ! r ! c = (if r = i \<and> c < k then fu i c else Data u ! r ! c))"
    proof (rule fill_row2 [OF il kl])
      fix j v' u' assume j: "j < k" and fr: "framed v v'" "framed u u'"
        and e: "Data v' ! i ! j = Data v ! i ! j"
      have "i < length (Data v0)" "j < length (Data v0 ! i)" using i j n k by auto
      with ev have "Data v ! i ! j = Data v0 ! i ! j" by auto
      with e have 2: "Data v' ! i ! j = Data v0 ! i ! j" by simp
      show "body i j (v', u') = Inr (v'\<lparr>Data := (Data v')[i := (Data v' ! i)[j := fv i j]]\<rparr>,
                                     u'\<lparr>Data := (Data u')[i := (Data u' ! i)[j := fu i j]]\<rparr>)"
        by (rule body [OF i j framed_trans [OF fv fr(1)] framed_trans [OF fu fr(2)] 2])
    qed
    then obtain v' u' where r: "forM [0..<k] (body i) (v, u) = Inr (v', u')"
      "framed v v'" "framed u u'"
      "\<forall>r<length (Data v). \<forall>c<length (Data v ! r).
               Data v' ! r ! c = (if r = i \<and> c < k then fv i c else Data v ! r ! c)"
      "\<forall>r<length (Data u). \<forall>c<length (Data u ! r).
               Data u' ! r ! c = (if r = i \<and> c < k then fu i c else Data u ! r ! c)"
      by blast
    have "?I (Suc i) (v', u')"
      using loop_step [OF fv ev r(2,4)] loop_step [OF fu eu r(3,5)] by simp
    with r(1) t show "\<exists>t'. forM [0..<k] (body i) t = Inr t' \<and> ?I (Suc i) t'" by blast
  qed
  then obtain t where "forM [0..<n] (\<lambda>i. forM [0..<k] (body i)) (v0, u0) = Inr t" "?I n t" by blast
  then show ?thesis by (cases t) simp
qed

lemma fill_loop2_shape:
  assumes v0: "has_shape v0 n k" and u0: "has_shape u0 n k"
    and body: "\<And>i j v u. i < n \<Longrightarrow> j < k \<Longrightarrow> framed v0 v \<Longrightarrow> framed u0 u \<Longrightarrow>
                 Data v ! i ! j = Data v0 ! i ! j \<Longrightarrow>
                 body i j (v, u) = Inr (v\<lparr>Data := (Data v)[i := (Data v ! i)[j := fv i j]]\<rparr>,
                                        u\<lparr>Data := (Data u)[i := (Data u ! i)[j := fu i j]]\<rparr>)"
  shows "\<exists>v u. forM [0..<n] (\<lambda>i. forM [0..<k] (body i)) (v0, u0) = Inr (v, u) \<and>
           has_shape v n k \<and> has_shape u n k \<and>
           (\<forall>i<n. \<forall>j<k. Data v ! i ! j = fv i j) \<and> (\<forall>i<n. \<forall>j<k. Data u ! i ! j = fu i j)"
proof -
  have "\<exists>v u. forM [0..<n] (\<lambda>i. forM [0..<k] (body i)) (v0, u0) = Inr (v, u) \<and>
           framed v0 v \<and> framed u0 u \<and>
           (\<forall>r<length (Data v0). \<forall>c<length (Data v0 ! r).
               Data v ! r ! c = (if r < n \<and> c < k then fv r c else Data v0 ! r ! c)) \<and>
           (\<forall>r<length (Data u0). \<forall>c<length (Data u0 ! r).
               Data u ! r ! c = (if r < n \<and> c < k then fu r c else Data u0 ! r ! c))"
    by (rule fill_loop2) (use v0 u0 body in \<open>simp_all add: has_shapeD\<close>)
  then obtain v u where r: "forM [0..<n] (\<lambda>i. forM [0..<k] (body i)) (v0, u0) = Inr (v, u)"
    "framed v0 v" "framed u0 u"
    "\<forall>r<length (Data v0). \<forall>c<length (Data v0 ! r).
               Data v ! r ! c = (if r < n \<and> c < k then fv r c else Data v0 ! r ! c)"
    "\<forall>r<length (Data u0). \<forall>c<length (Data u0 ! r).
               Data u ! r ! c = (if r < n \<and> c < k then fu r c else Data u0 ! r ! c)"
    by blast
  have "\<forall>i<n. \<forall>j<k. Data v ! i ! j = fv i j"
    using r(4) v0 by (simp add: has_shapeD)
  moreover have "\<forall>i<n. \<forall>j<k. Data u ! i ! j = fu i j"
    using r(5) u0 by (simp add: has_shapeD)
  ultimately show ?thesis
    using r(1) framed_has_shape [OF r(2) v0] framed_has_shape [OF r(3) u0] by blast
qed

section \<open>Stochastic gradient descent with momentum\<close>

lemma SGD_Update_loop:
  assumes p: "has_shape p n k" and g: "has_shape g n k" and v0: "has_shape v0 n k"
  shows "\<exists>velocity updated.
     forM [0..<n] (\<lambda>i. forM [0..<k] (\<lambda>j (velocity, updated).
              bindE (mat_get velocity i j) (\<lambda>vel.
              bindE (mat_get g i j) (\<lambda>g.
              bindE (mat_set velocity i j (mu * vel - lr * g)) (\<lambda>velocity'.
              bindE (mat_get p i j) (\<lambda>p.
              bindE (mat_get velocity' i j) (\<lambda>vel'.
              bindE (mat_set updated i j (p + vel')) (\<lambda>updated'.
              Inr (velocity', updated')))))))))
            (v0, NewMatrix n k) = Inr (velocity, updated) \<and>
     has_shape velocity n k \<and> has_shape updated n k \<and>
     (\<forall>i<n. \<forall>j<k. Data velocity ! i ! j = mu * Data v0 ! i ! j - lr * Data g ! i ! j) \<and>
     (\<forall>i<n. \<forall>j<k. Data updated ! i ! j = Data p ! i ! j + (mu * Data v0 ! i ! j - lr * Data g ! i ! j))"
proof (rule fill_loop2_shape [OF v0 has_shape_NewMatrix])
  fix i j v u
  assume i: "i < n" and j: "j < k" and fv: "framed v0 v" and fu: "framed (NewMatrix n k) u"
    and e: "Data v ! i ! j = Data v0 ! i ! j"
  let ?v' = "v\<lparr>Data := (Data v)[i := (Data v ! i)[j := mu * Data v0 ! i ! j - lr * Data g ! i ! j]]\<rparr>"
  have sv: "has_shape v n k" by (rule framed_has_shape [OF fv v0])
  have sv': "has_shape ?v' n k" by (rule framed_has_shape [OF framed_update [OF fv] v0])
  have rd: "mat_get ?v' i j = Inr (mu * Data v0 ! i ! j - lr * Data g ! i ! j)"
    using mat_get_shape [OF sv' i j] i j sv by (simp add: has_shapeD)
  show "(case (v, u) of (velocity, updated) \<Rightarrow>
              bindE (mat_get velocity i j) (\<lambda>vel.
              bindE (mat_get g i j) (\<lambda>g.
              bindE (mat_set velocity i j (mu * vel - lr * g)) (\<lambda>velocity'.
              bindE (mat_get p i j) (\<lambda>p.
              bindE (mat_get velocity' i j) (\<lambda>vel'.
              bindE (mat_set updated i j (p + vel')) (\<lambda>updated'.
              Inr (velocity', updated'))))))))
        = Inr (?v', u\<lparr>Data := (Data u)[i := (Data u ! i)
                 [j := Data p ! i ! j + (mu * Data v0 ! i ! j - lr * Data g ! i ! j)]]\<rparr>)"
    using mat_get_shape [OF sv i j] mat_get_shape [OF g i j] mat_get_shape [OF p i j]
      mat_set_framed [OF fv, of i j] mat_set_framed [OF fu, of i j] i j v0 e rd
    by (simp add: has_shapeD)
qed

text \<open>
  Claim C7. Let \<open>p\<close> and \<open>g\<close> be well-formed matrices of one shape, and let the velocity that the
  optimizer holds for the identifier, if it holds one, have that shape too (it does when
  the identifier was only ever used with parameters of this shape). Then \<open>Update\<close> succeeds:
  the new velocity is \<open>momentum \<cdot> velocity - lr \<cdot> g\<close> entry by entry, the old velocity being
  zero on first use of the identifier; the result is \<open>p + velocity\<close>; with \<open>momentum = 0\<close>
  the result is \<open>p - lr \<cdot> g\<close>. A new optimizer with \<open>lr = 0.1\<close> and \<open>momentum = 0\<close> maps
  \<open>p = 1.0\<close>, \<open>g = 0.5\<close> to \<open>0.95\<close>.
\<close>

theorem SGD_Update_correct:
  assumes p: "has_shape p n k" and g: "has_shape g n k"
    and vel: "case Velocity sgd name of None \<Rightarrow> True | Some v \<Rightarrow> has_shape v n k"
  shows "(\<exists>updated velocity.
           SGD_Update sgd name p g = Inr (updated, sgd\<lparr>Velocity := (Velocity sgd)(name \<mapsto> velocity)\<rparr>) \<and>
           has_shape velocity n k \<and> has_shape updated n k \<and>
           (\<forall>i<n. \<forall>j<k.
              Data velocity ! i ! j
                = Momentum sgd * (case Velocity sgd name of None \<Rightarrow> 0 | Some v \<Rightarrow> Data v ! i ! j)
                  - sgd_LearningRate sgd * Data g ! i ! j \<and>
              Data updated ! i ! j = Data p ! i ! j + Data velocity ! i ! j \<and>
              (Momentum sgd = 0 \<longrightarrow>
                 Data updated ! i ! j = Data p ! i ! j - sgd_LearningRate sgd * Data g ! i ! j))) \<and>
         (\<exists>sgd'. SGD_Update (NewSGD (1 / 10) 0) name
                    \<lparr>Rows = 1, Cols = 1, Data = [[1]]\<rparr> \<lparr>Rows = 1, Cols = 1, Data = [[1 / 2]]\<rparr>
                  = Inr (\<lparr>Rows = 1, Cols = 1, Data = [[95 / 100]]\<rparr>, sgd'))"
proof (intro conjI)
  define v0 where "v0 = (case Velocity sgd name of None \<Rightarrow> NewMatrix n k | Some v \<Rightarrow> v)"
  have v0: "has_shape v0 n k"
    using vel by (auto simp: v0_def has_shape_NewMatrix split: option.splits)
  have pd: "Rows p = n" "Cols p = k" using p by (simp_all add: has_shapeD)
  from SGD_Update_loop [OF p g v0, of "Momentum sgd" "sgd_LearningRate sgd"]
  obtain velocity updated where r:
    "forM [0..<n] (\<lambda>i. forM [0..<k] (\<lambda>j (velocity, updated).
              bindE (mat_get velocity i j) (\<lambda>vel.
              bindE (mat_get g i j) (\<lambda>g.
              bindE (mat_set velocity i j (Momentum sgd * vel - sgd_LearningRate sgd * g)) (\<lambda>velocity'.
              bindE (mat_get p i j) (\<lambda>p.
              bindE (mat_get velocity' i j) (\<lambda>vel'.
              bindE (mat_set updated i j (p + vel')) (\<lambda>updated'.
              Inr (velocity', updated')))))))))
            (v0, NewMatrix n k) = Inr (velocity, updated)"
    and sh: "has_shape velocity n k" "has_shape updated n k"
    and ev: "\<forall>i<n. \<forall>j<k. Data velocity ! i ! j
               = Momentum sgd * Data v0 ! i ! j - sgd_LearningRate sgd * Data g ! i ! j"
    and eu: "\<forall>i<n. \<forall>j<k. Data updated ! i ! j
               = Data p ! i ! j + (Momentum sgd * Data v0 ! i ! j - sgd_LearningRate sgd * Data g ! i ! j)"
    by blast
  have call: "SGD_Update sgd name p g
      = Inr (updated, sgd\<lparr>Velocity := (Velocity sgd)(name \<mapsto> velocity)\<rparr>)"
    using r pd by (cases "Velocity sgd name") (simp_all add: SGD_Update_def v0_def)
  have old: "\<And>i j. i < n \<Longrightarrow> j < k \<Longrightarrow>
      Data v0 ! i ! j = (case Velocity sgd name of None \<Rightarrow> 0 | Some v \<Rightarrow> Data v ! i ! j)"
    by (simp add: v0_def split: option.splits)
  show "\<exists>updated velocity.
           SGD_Update sgd name p g = Inr (updated, sgd\<lparr>Velocity := (Velocity sgd)(name \<mapsto> velocity)\<rparr>) \<and>
           has_shape velocity n k \<and> has_shape updated n k \<and>
           (\<forall>i<n. \<forall>j<k.
              Data velocity ! i ! j
                = Momentum sgd * (case Velocity sgd name of None \<Rightarrow> 0 | Some v \<Rightarrow> Data v ! i ! j)
                  - sgd_LearningRate sgd * Data g ! i ! j \<and>
              Data updated ! i ! j = Data p ! i ! j + Data velocity ! i ! j \<and>
              (Momentum sgd = 0 \<longrightarrow>
                 Data updated ! i ! j = Data p ! i ! j - sgd_LearningRate sgd * Data g ! i ! j))"
    using call sh ev eu old by (intro exI [of _ updated] exI [of _ velocity]) simp
next
  show "\<exists>sgd'. SGD_Update (NewSGD (1 / 10) 0) name
                    \<lparr>Rows = 1, Cols = 1, Data = [[1]]\<rparr> \<lparr>Rows = 1, Cols = 1, Data = [[1 / 2]]\<rparr>
                  = Inr (\<lparr>Rows = 1, Cols = 1, Data = [[95 / 100]]\<rparr>, sgd')"
    by (simp add: SGD_Update_def NewSGD_def mat_get_def mat_set_def index2_def assign2_def)
qed

text \<open>
  The theorem on an optimizer that already holds the velocity \<open>[[1]]\<close> for the identifier:
  with \<open>lr = 0.1\<close> and \<open>momentum = 0.9\<close>, \<open>p = 1\<close> and \<open>g = 0.5\<close> give the velocity \<open>0.85\<close> and the
  result \<open>1.85\<close>.
\<close>

theorem SGD_Update_correct_witness:
  "has_shape \<lparr>Rows = 1, Cols = 1, Data = [[1]]\<rparr> 1 1 \<and>
   has_shape \<lparr>Rows = 1, Cols = 1, Data = [[1 / 2]]\<rparr> 1 1 \<and>
   (case Velocity sgd_used ''layer_0_weights'' of None \<Rightarrow> True | Some v \<Rightarrow> has_shape v 1 1) \<and>
   (\<exists>updated velocity.
      SGD_Update sgd_used ''layer_0_weights''
          \<lparr>Rows = 1, Cols = 1, Data = [[1]]\<rparr> \<lparr>Rows = 1, Cols = 1, Data = [[1 / 2]]\<rparr>
        = Inr (updated, sgd_used\<lparr>Velocity := (Velocity sgd_used)(''layer_0_weights'' \<mapsto> velocity)\<rparr>) \<and>
      Data velocity ! 0 ! 0 = 85 / 100 \<and> Data updated ! 0 ! 0 = 185 / 100)"
proof -
  have p: "has_shape \<lparr>Rows = 1, Cols = 1, Data = [[1]]\<rparr> 1 1" by code_simp
  have g: "has_shape \<lparr>Rows = 1, Cols = 1, Data = [[1 / 2]]\<rparr> 1 1" by code_simp
  have s: "has_shape \<lparr>Rows = 1, Cols = 1, Data = [[1]]\<rparr> 1 1" by code_simp
  have v: "case Velocity sgd_used ''layer_0_weights'' of None \<Rightarrow> True | Some v \<Rightarrow> has_shape v 1 1"
    using s by (simp add: sgd_used_def)
  from SGD_Update_correct [OF p g v] obtain updated velocity where
    r: "SGD_Update sgd_used ''layer_0_weights''
          \<lparr>Rows = 1, Cols = 1, Data = [[1]]\<rparr> \<lparr>Rows = 1, Cols = 1, Data = [[1 / 2]]\<rparr>
        = Inr (updated, sgd_used\<lparr>Velocity := (Velocity sgd_used)(''layer_0_weights'' \<mapsto> velocity)\<rparr>)"
    and e: "\<forall>i<1. \<forall>j<1.
              Data velocity ! i ! j
                = Momentum sgd_used * (case Velocity sgd_used ''layer_0_weights'' of
                                         None \<Rightarrow> 0 | Some v \<Rightarrow> Data v ! i ! j)
                  - sgd_LearningRate sgd_used * Data \<lparr>Rows = 1, Cols = 1, Data = [[1 / 2]]\<rparr> ! i ! j \<and>
              Data updated ! i ! j = Data \<lparr>Rows = 1, Cols = 1, Data = [[1]]\<rparr> ! i ! j + Data velocity ! i ! j \<and>
              (Momentum sgd_used = 0 \<longrightarrow>
                 Data updated ! i ! j = Data \<lparr>Rows = 1, Cols = 1, Data = [[1]]\<rparr> ! i ! j
                   - sgd_LearningRate sgd_used * Data \<lparr>Rows = 1, Cols = 1, Data = [[1 / 2]]\<rparr> ! i ! j)"
    by blast
  from e [rule_format, of 0 0]
  have "Data velocity ! 0 ! 0 = 85 / 100" "Data updated ! 0 ! 0 = 185 / 100"
    by (simp_all add: sgd_used_def)
  with p g v r show ?thesis by blast
qed

section \<open>A failed training step\<close>

lemma only_panicsD: "only_panics r \<Longrightarrow> r = Inl e \<Longrightarrow> is_panic e"
  by (simp add: only_panics_def)

lemma only_panics_Inr [simp]: "only_panics (Inr x)"
  by (simp add: only_panics_def)

lemma only_panics_Panic [simp]: "only_panics (Inl (Panic k))"
  by (simp add: only_panics_def)

lemma only_panics_bindE:
  "only_panics r \<Longrightarrow> (\<And>x. only_panics (f x)) \<Longrightarrow> only_panics (bindE r f)"
  by (cases r) (simp_all add: only_panics_def)

lemma only_panics_forM:
  "(\<And>i s. only_panics (body i s)) \<Longrightarrow> only_panics (forM is body s)"
  by (induction "is" arbitrary: s) (simp_all add: only_panics_bindE)

lemma only_panics_index [simp]: "only_panics (index xs i)"
  by (simp add: index_def)

lemma only_panics_assign [simp]: "only_panics (assign xs i v)"
  by (simp add: assign_def)

lemma only_panics_mat_get [simp]: "only_panics (mat_get x i j)"
  by (simp add: mat_get_def index2_def only_panics_bindE)

lemma only_panics_mat_set [simp]: "only_panics (mat_set x i j v)"
  by (simp add: mat_set_def assign2_def only_panics_bindE)

lemma only_panics_Let: "(\<And>x. only_panics (f x)) \<Longrightarrow> only_panics (Let v f)"
  by (simp add: Let_def)

lemma only_panics_case_option:
  "only_panics a \<Longrightarrow> (\<And>x. only_panics (f x)) \<Longrightarrow> only_panics (case opt of None \<Rightarrow> a | Some x \<Rightarrow> f x)"
  by (cases opt) simp_all

lemma only_panics_case_prod:
  "(\<And>a b. only_panics (f a b)) \<Longrightarrow> only_panics (case p of (a, b) \<Rightarrow> f a b)"
  by (cases p) simp

lemma only_panics_if:
  "only_panics a \<Longrightarrow> only_panics b \<Longrightarrow> only_panics (if c then a else b)"
  by simp

lemmas only_panics_intros =
  only_panics_Let only_panics_case_option only_panics_case_prod only_panics_if
  only_panics_bindE only_panics_forM only_panics_mat_get only_panics_mat_set
  only_panics_index only_panics_assign only_panics_Inr only_panics_Panic

lemma only_panics_AdamOptimizer_Update: "only_panics (AdamOptimizer_Update a name p g)"
  unfolding AdamOptimizer_Update_def by (intro only_panics_intros)

lemma only_panics_SGD_Update: "only_panics (SGD_Update a name p g)"
  unfolding SGD_Update_def by (intro only_panics_intros)

lemma only_panics_Optimizer_Update: "only_panics (Optimizer_Update opt name p g)"
  by (cases opt)
    (simp_all add: only_panics_intros only_panics_AdamOptimizer_Update only_panics_SGD_Update)

lemma only_panics_update_layer:
  assumes "\<And>opt name p g. only_panics (upd opt name p g)"
  shows "only_panics (update_layer upd idx layer optimizer)"
  unfolding update_layer_def by (intro only_panics_intros assms)

lemma only_panics_update_layers:
  assumes "\<And>opt name p g. only_panics (upd opt name p g)"
  shows "only_panics (update_layers upd idx layers optimizer)"
proof (induction layers arbitrary: idx optimizer)
  case Nil
  show ?case by simp
next
  case (Cons layer layers)
  show ?case
    unfolding update_layers.simps
    by (intro only_panics_intros only_panics_update_layer assms Cons.IH)
qed

lemma only_panics_UpdateWeights:
  assumes "\<And>opt name p g. only_panics (upd opt name p g)"
  shows "only_panics (UpdateWeights upd s)"
  unfolding UpdateWeights_def
  by (intro only_panics_intros only_panics_update_layers assms)

lemma GetParams_Layer_Forward: "GetParams (snd (Layer_Forward layer x)) = GetParams layer"
  by (cases layer) (simp_all add: Dense_Forward_def split: prod.splits)

lemma GetParams_Layer_Backward: "GetParams (snd (Layer_Backward layer g)) = GetParams layer"
  by (cases layer) (auto simp: Dense_Backward_def Let_def split: prod.splits sum.splits)

lemma GetParams_forward_layers:
  "forward_layers i layers x = (r, layers') \<Longrightarrow> map GetParams layers' = map GetParams layers"
proof (induction layers arbitrary: i x r layers')
  case Nil
  then show ?case by auto
next
  case (Cons layer layers)
  obtain r1 l1 where a: "Layer_Forward layer x = (r1, l1)" by (cases "Layer_Forward layer x")
  have p: "GetParams l1 = GetParams layer"
    using GetParams_Layer_Forward [of layer x] a by simp
  show ?case
  proof (cases r1)
    case (Inl e)
    with Cons.prems a p show ?thesis by auto
  next
    case (Inr out)
    obtain r2 ls2 where b: "forward_layers (Suc i) layers out = (r2, ls2)"
      by (cases "forward_layers (Suc i) layers out")
    from Cons.IH [OF b] Cons.prems a p Inr b show ?thesis by auto
  qed
qed

lemma GetParams_backward_layers:
  "backward_layers layers g = (r, layers') \<Longrightarrow> map GetParams layers' = map GetParams layers"
proof (induction layers arbitrary: g r layers')
  case Nil
  then show ?case by auto
next
  case (Cons layer layers)
  obtain r1 l1 where a: "Layer_Backward layer g = (r1, l1)" by (cases "Layer_Backward layer g")
  have p: "GetParams l1 = GetParams layer"
    using GetParams_Layer_Backward [of layer g] a by simp
  show ?case
  proof (cases r1)
    case (Inl e)
    with Cons.prems a p show ?thesis by auto
  next
    case (Inr g')
    obtain r2 ls2 where b: "backward_layers layers g' = (r2, ls2)"
      by (cases "backward_layers layers g'")
    from Cons.IH [OF b] Cons.prems a p Inr b show ?thesis by auto
  qed
qed

lemma Sequential_Forward_keeps:
  assumes "Sequential_Forward s X = (r, s1)"
  shows "Optimizer s1 = Optimizer s \<and> Loss s1 = Loss s \<and>
         map GetParams (Layers s1) = map GetParams (Layers s)"
proof -
  obtain r' ls where a: "forward_layers 0 (Layers s) X = (r', ls)"
    by (cases "forward_layers 0 (Layers s) X")
  from GetParams_forward_layers [OF a] a assms show ?thesis
    by (auto simp: Sequential_Forward_def)
qed

lemma Sequential_Backward_keeps:
  assumes "Sequential_Backward s g = (r, s1)"
  shows "Optimizer s1 = Optimizer s \<and> Loss s1 = Loss s \<and>
         map GetParams (Layers s1) = map GetParams (Layers s)"
proof -
  obtain r' ls where a: "backward_layers (rev (Layers s)) g = (r', ls)"
    by (cases "backward_layers (rev (Layers s)) g")
  from GetParams_backward_layers [OF a] have "rev (map GetParams ls) = rev (map GetParams (rev (Layers s)))"
    by simp
  then have "map GetParams (rev ls) = map GetParams (Layers s)"
    by (simp add: rev_map)
  with a assms show ?thesis
    by (auto simp: Sequential_Backward_def)
qed

text \<open>
  Claim C3. Let \<open>TrainOnBatch\<close> return an error (not panic). The error then comes from the
  forward pass, the loss or the backward pass, and the step is over before \<open>UpdateWeights\<close>:
  the call returns the same error and the same model whatever the optimizer's \<open>Update\<close>
  method does, so \<open>Update\<close> is not invoked; the optimizer is in the state it was in; and every
  layer has the parameter matrices it had (the caches and gradient buffers may have changed).
\<close>

theorem TrainOnBatch_error_keeps_parameters:
  assumes upd: "\<And>opt name p g. only_panics (upd opt name p g)"
    and err: "TrainOnBatch upd s X y = (Inl e, s')"
    and np: "\<not> is_panic e"
  shows "Optimizer s' = Optimizer s \<and>
         map GetParams (Layers s') = map GetParams (Layers s) \<and>
         (\<forall>upd'. TrainOnBatch upd' s X y = (Inl e, s'))"
proof -
  obtain r1 s1 where f: "Sequential_Forward s X = (r1, s1)" by (cases "Sequential_Forward s X")
  note k1 = Sequential_Forward_keeps [OF f]
  show ?thesis
  proof (cases r1)
    case (Inl e1)
    with f err k1 show ?thesis by (auto simp: TrainOnBatch_def)
  next
    case (Inr predictions)
    note r1 = this
    show ?thesis
    proof (cases "Loss_Forward (Loss s1) predictions y")
      case (Inl e2)
      with f r1 err k1 show ?thesis by (auto simp: TrainOnBatch_def)
    next
      case (Inr loss)
      note lf = this
      show ?thesis
      proof (cases "Loss_Backward (Loss s1) predictions y")
        case (Inl e3)
        with f r1 lf err k1 show ?thesis by (auto simp: TrainOnBatch_def)
      next
        case (Inr gradLoss)
        note lb = this
        obtain r2 s2 where b: "Sequential_Backward s1 gradLoss = (r2, s2)"
          by (cases "Sequential_Backward s1 gradLoss")
        note k2 = Sequential_Backward_keeps [OF b]
        show ?thesis
        proof (cases r2)
          case (Some e4)
          with f r1 lf lb b err k1 k2 show ?thesis by (auto simp: TrainOnBatch_def)
        next
          case None
          have "only_panics (UpdateWeights upd s2)"
            by (rule only_panics_UpdateWeights) (rule upd)
          with f r1 lf lb b None err np have False
            by (auto simp: TrainOnBatch_def only_panics_def split: sum.splits)
          then show ?thesis ..
        qed
      qed
    qed
  qed
qed

text \<open>
  The theorem on a step whose forward pass succeeds and whose loss rejects the targets,
  a \<open>1 \<times> 1\<close> matrix against predictions of shape \<open>2 \<times> 1\<close>.
\<close>

theorem TrainOnBatch_error_keeps_parameters_witness:
  "(\<forall>opt name p g. only_panics (Optimizer_Update opt name p g)) \<and>
   fst (TrainOnBatch Optimizer_Update model_mse batch_2_2 (NewMatrix 1 1)) = Inl ShapeMismatch \<and>
   \<not> is_panic ShapeMismatch \<and>
   Optimizer (snd (TrainOnBatch Optimizer_Update model_mse batch_2_2 (NewMatrix 1 1))) = Optimizer model_mse \<and>
   map GetParams (Layers (snd (TrainOnBatch Optimizer_Update model_mse batch_2_2 (NewMatrix 1 1))))
     = map GetParams (Layers model_mse)"
proof -
  have u: "\<And>opt name p g. only_panics (Optimizer_Update opt name p g)"
    by (rule only_panics_Optimizer_Update)
  have f: "fst (TrainOnBatch Optimizer_Update model_mse batch_2_2 (NewMatrix 1 1)) = Inl ShapeMismatch"
  proof -
    have "Dense_Forward dense_2_1 batch_2_2
        = (Inr \<lparr>Rows = 2, Cols = 1, Data = [[11], [25]]\<rparr>, dense_2_1\<lparr>lastInput := Some batch_2_2\<rparr>)"
      unfolding dense_2_1_def batch_2_2_def by code_simp
    then show ?thesis
      by (simp add: TrainOnBatch_def Sequential_Forward_def model_mse_def Compile_def Add_layer_def
          NewSequential_def MSE_Forward_def)
  qed
  then have e: "TrainOnBatch Optimizer_Update model_mse batch_2_2 (NewMatrix 1 1)
      = (Inl ShapeMismatch, snd (TrainOnBatch Optimizer_Update model_mse batch_2_2 (NewMatrix 1 1)))"
    by (metis prod.collapse)
  have n: "\<not> is_panic ShapeMismatch" by simp
  from TrainOnBatch_error_keeps_parameters [of Optimizer_Update, OF u e n] u f n
  show ?thesis by blast
qed

section \<open>The step counter of Adam\<close>




















lemma recording_fst:
  "map_sum id (apsnd fst) (recording upd (opt, calls) name p g) = upd opt name p g"
  by (cases "upd opt name p g") (auto simp: recording_def)






section \<open>The convolution layer\<close>























text \<open>
  The bounds on the padded size are needed: with a \<open>1 \<times> 1\<close> input, filter size \<open>1\<close> and
  stride and padding \<open>2^62\<close>, the product \<open>2 \<cdot> Padding\<close> wraps around to \<open>-2^63\<close>, the size becomes
  \<open>-1\<close> and the allocation of the output panics.
\<close>

lemma ConvLayer_Forward_wraps:
  "ConvLayer_Forward
     \<lparr>NumFilters = 1, FilterSize = 1, Stride = 2 ^ 62, Padding = 2 ^ 62, InChannels = 1,
      Filters = [[[[1]]]], conv_Bias = [0]\<rparr>
     \<lparr>Channels = 1, Height = 1, Width = 1, tensor_Data = [[[1]]]\<rparr>
   = Inl (Panic MakeSliceLenOutOfRange)"
  by code_simp

section \<open>Softmax in exact arithmetic\<close>

text \<open>
  What the embedding can say about \<open>Softmax\<close>: on the empty slice the read of \<open>input[0]\<close>
  panics; on a nonempty slice, with the arithmetic carried out exactly, the results lie in
  \<open>[0, 1]\<close>, they sum to exactly \<open>1\<close>, and adding a constant to every input changes nothing.
  How far the \<open>float64\<close> results are from these values is a matter of rounding, which the
  embedding does not model.
\<close>

lemma foldl_plus_sum_list: "foldl (+) a xs = a + sum_list (xs::real list)"
  by (induction xs arbitrary: a) simp_all

lemma foldl_max_shift:
  "foldl (\<lambda>max v. if v > max then v else max) (m + c) (map (\<lambda>x. x + c) xs)
     = foldl (\<lambda>max v. if v > max then v else max) m xs + (c::real)"
  by (induction xs arbitrary: m) simp_all

lemma sum_list_map_divide: "sum_list (map (\<lambda>e. e / s) es) = sum_list es / (s::real)"
  by (induction es) (simp_all add: add_divide_distrib)

lemma Softmax_empty: "Softmax [] = Inl (Panic IndexOutOfRange)"
  by (simp add: Softmax_def index_def)

lemma Softmax_exact:
  assumes "xs \<noteq> []"
  shows "\<exists>ys. Softmax xs = Inr ys \<and> length ys = length xs \<and>
           (\<forall>y\<in>set ys. 0 \<le> y \<and> y \<le> 1) \<and> sum_list ys = 1 \<and>
           Softmax (map (\<lambda>x. x + c) xs) = Inr ys"
proof -
  define mx where "mx = foldl (\<lambda>max v. if v > max then v else max) (xs ! 0) xs"
  define es where "es = map (\<lambda>v. exp (v - mx)) xs"
  define s where "s = sum_list es"
  have pos: "\<And>e. e \<in> set es \<Longrightarrow> 0 < e" by (auto simp: es_def)
  have ne: "es \<noteq> []" using assms by (simp add: es_def)
  then obtain e0 where e0: "e0 \<in> set es" by (cases es) auto
  have nonneg: "\<And>e. e \<in> set es \<Longrightarrow> 0 \<le> e" using pos by (simp add: less_imp_le)
  have le: "\<And>e. e \<in> set es \<Longrightarrow> e \<le> s"
    unfolding s_def using nonneg by (simp add: member_le_sum_list)
  have s0: "0 < s" using pos [OF e0] le [OF e0] by simp
  have call: "Softmax xs = Inr (map (\<lambda>e. e / s) es)"
    using assms by (simp add: Softmax_def Let_def mx_def es_def s_def foldl_plus_sum_list)
  have "foldl (\<lambda>max v. if v > max then v else max) (map (\<lambda>x. x + c) xs ! 0) (map (\<lambda>x. x + c) xs)
          = mx + c"
    using assms foldl_max_shift [of "xs ! 0" c xs] by (simp add: mx_def)
  then have shift: "Softmax (map (\<lambda>x. x + c) xs) = Inr (map (\<lambda>e. e / s) es)"
    using assms
    by (simp add: Softmax_def Let_def es_def s_def foldl_plus_sum_list comp_def)
  have bounds: "\<forall>y\<in>set (map (\<lambda>e. e / s) es). 0 \<le> y \<and> y \<le> 1"
    using s0 nonneg le by (auto simp: divide_le_eq)
  have total: "sum_list (map (\<lambda>e. e / s) es) = 1"
    using s0 by (simp add: sum_list_map_divide s_def)
  show ?thesis
    using call shift bounds total by (intro exI [of _ "map (\<lambda>e. e / s) es"]) (simp add: es_def)
qed

end
